theory Spec2Isabelle
  imports Complex_Main "HOL-Library.AList" "HOL-Library.Sublist" "HOL-Library.Product_Lexorder"
    "HOL-Library.Multiset"
begin

section \<open>The layered memory system of layered_memory_system.py\<close>

text \<open>
  Conventions of the embedding.
  \<^item> A Python float is the real number that a finite double denotes (NaN and the
    infinities are outside the model); Python ints are \<open>int\<close>. A comparison of floats is
    the comparison of these reals. Where the code computes with floats (the sum in
    \<open>retrieve\<close>, the relevance and the scores of the searches, the decayed importance
    of \<open>prune\<close>) the exact result is rounded to the nearest double, ties to even, as
    IEEE 754 prescribes, and the float literals of these computations are the doubles
    nearest to their decimals. A result beyond the largest double, an infinity in the
    code, is outside the model. The age in hours of the consolidation, which is only
    compared with the thresholds of the rules, is the quotient itself.
  \<^item> A timestamp is the number of microseconds since the epoch (the resolution of
    \<open>datetime\<close>); the ISO strings kept in \<open>created_at\<close> and \<open>last_accessed\<close> are
    represented by the instants they denote, and a \<open>timedelta\<close> is a difference of
    instants. Every reading of \<open>datetime.now()\<close> is an explicit argument.
  \<^item> Memory items are mutable objects that the ring buffer, the side table and the
    long-term index share by reference: a heap maps references to items, and the
    containers hold references.
  \<^item> A dict is an association list with distinct keys in insertion order
    (\<open>AList.update\<close> replaces in place or appends, \<open>AList.delete\<close> removes).
  \<^item> The first 16 hex digits of the SHA-256 digest that name an item are a parameter
    \<open>mk_id\<close> of the content and of the instant read for the digest.
  \<^item> A string is a list of 8-bit characters, read as the code points below 256;
    \<open>lower\<close> and \<open>split\<close> follow Python on all of them. Code points from 256 on are
    outside the model.
\<close>

subsection \<open>Data model\<close>

type_synonym ref = nat

record MemoryItem =
  memory_id :: string
  content :: string
  memory_type :: string
  importance :: real
  access_count :: int
  created_at :: int
  last_accessed :: int
  decay_rate :: real
  tags :: "string list"
  context_dict :: "(string \<times> string) list"

record ConsolidationRule =
  min_access_count :: int
  min_importance :: real
  min_age_hours :: real
  required_tags :: "string list option"

record heap =
  objs :: "ref \<Rightarrow> MemoryItem"
  next_ref :: ref

definition alloc :: "MemoryItem \<Rightarrow> heap \<Rightarrow> ref \<times> heap" where
  "alloc it h = (next_ref h, h\<lparr>objs := (objs h)(next_ref h := it), next_ref := Suc (next_ref h)\<rparr>)"

datatype py_error = ZeroDivisionError | ValueError | OverflowError

subsection \<open>Floats\<close>

text \<open>
  Rounding to the nearest integer, ties to the even one, and rounding of a real to the
  nearest double: the unit in the last place of a normal number in the binade
  \<open>[2^e, 2^(e+1))\<close> is \<open>2^(e-52)\<close>, and \<open>2^(-1074)\<close> for the subnormal numbers.
\<close>

definition round_half_even :: "real \<Rightarrow> int" where
  "round_half_even y =
     (let f = \<lfloor>y\<rfloor> in
      if y - of_int f < 1 / 2 then f
      else if y - of_int f > 1 / 2 then f + 1
      else if even f then f else f + 1)"

definition ulp_exponent :: "real \<Rightarrow> int" where
  "ulp_exponent x = max (\<lfloor>log 2 \<bar>x\<bar>\<rfloor> - 52) (- 1074)"

definition round_double :: "real \<Rightarrow> real" where
  "round_double x =
     (if x = 0 then 0
      else of_int (round_half_even (x / 2 powi ulp_exponent x)) * 2 powi ulp_exponent x)"

text \<open>
  The conversion of an int to a float, as in \<open>n * 0.1\<close>: the nearest double, and
  OverflowError when that is beyond the largest double.
\<close>

definition float_of_int :: "int \<Rightarrow> py_error + real" where
  "float_of_int n =
     (if \<bar>round_double (of_int n)\<bar> \<ge> 2 ^ 1024 then Inl OverflowError
      else Inr (round_double (of_int n)))"

subsection \<open>Time spans\<close>

definition minute_us :: int where
  "minute_us = 60000000"

definition day_us :: int where
  "day_us = 86400000000"

definition hour_us :: real where
  "hour_us = 3600000000"

subsection \<open>String operations used by the searches\<close>

text \<open>
  \<open>str.lower()\<close> on the code points below 256: the letters A to Z and the capital
  letters 192 to 222 other than the multiplication sign 215 move up by 32.
\<close>

definition lower_char :: "char \<Rightarrow> char" where
  "lower_char c =
     (if (65 \<le> (of_char c :: nat) \<and> (of_char c :: nat) \<le> 90)
         \<or> (192 \<le> (of_char c :: nat) \<and> (of_char c :: nat) \<le> 222 \<and> (of_char c :: nat) \<noteq> 215)
      then char_of ((of_char c :: nat) + 32) else c)"

definition lower :: "string \<Rightarrow> string" where
  "lower s = map lower_char s"

text \<open>
  The whitespace of \<open>str.split()\<close> among the code points below 256: 9 to 13, 28 to 32,
  133 (next line) and 160 (no-break space).
\<close>

definition is_space :: "char \<Rightarrow> bool" where
  "is_space c = ((9 \<le> (of_char c :: nat) \<and> (of_char c :: nat) \<le> 13)
                 \<or> (28 \<le> (of_char c :: nat) \<and> (of_char c :: nat) \<le> 32)
                 \<or> (of_char c :: nat) = 133 \<or> (of_char c :: nat) = 160)"

text \<open>\<open>s.split()\<close>: the maximal runs of non-whitespace characters.\<close>

fun split_ws :: "string \<Rightarrow> string \<Rightarrow> string list" where
  "split_ws cur [] = (if cur = [] then [] else [cur])"
| "split_ws cur (c # cs) =
     (if is_space c then (if cur = [] then split_ws [] cs else cur # split_ws [] cs)
      else split_ws (cur @ [c]) cs)"

definition split :: "string \<Rightarrow> string list" where
  "split s = split_ws [] s"

text \<open>\<open>q in s\<close>: \<open>q\<close> occurs in \<open>s\<close> as a contiguous substring.\<close>

fun contains :: "string \<Rightarrow> string \<Rightarrow> bool" where
  "contains [] q = (q = [])"
| "contains (c # cs) q = (prefix q (c # cs) \<or> contains cs q)"

text \<open>
  \<open>s.count(q)\<close>: the number of non-overlapping occurrences, scanning from the left;
  the empty string occurs \<open>len(s) + 1\<close> times. In \<open>count_from\<close> the number is that of
  the characters of the last occurrence still to be skipped.
\<close>

fun count_from :: "string \<Rightarrow> nat \<Rightarrow> string \<Rightarrow> nat" where
  "count_from q k [] = 0"
| "count_from q k (c # cs) =
     (if 0 < k then count_from q (k - 1) cs
      else if prefix q (c # cs) then 1 + count_from q (length q - 1) cs
      else count_from q 0 cs)"

definition count :: "string \<Rightarrow> string \<Rightarrow> nat" where
  "count s q = (if q = [] then length s + 1 else count_from q 0 s)"

text \<open>\<open>xs[:k]\<close>: a negative \<open>k\<close> drops that many elements from the end.\<close>

definition slice_to :: "int \<Rightarrow> 'a list \<Rightarrow> 'a list" where
  "slice_to k xs = (if 0 \<le> k then take (nat k) xs else take (length xs - nat (- k)) xs)"

subsection \<open>ShortTermMemory\<close>

text \<open>
  \<open>deque(maxlen=n).append(x)\<close> adds \<open>x\<close> on the right and then, if the deque is longer
  than \<open>n\<close>, removes the leftmost element.
\<close>

definition deque_append :: "nat \<Rightarrow> 'a list \<Rightarrow> 'a \<Rightarrow> 'a list" where
  "deque_append maxlen xs x = (let ys = xs @ [x] in if maxlen < length ys then tl ys else ys)"

record ShortTermMemory =
  max_capacity :: nat
  retention_minutes :: int
  items :: "ref list"
  item_map :: "(string \<times> ref) list"

text \<open>\<open>deque(maxlen=max_capacity)\<close> raises ValueError for a negative length.\<close>

definition ShortTermMemory_init :: "int \<Rightarrow> int \<Rightarrow> py_error + ShortTermMemory" where
  "ShortTermMemory_init cap ret =
     (if cap < 0 then Inl ValueError
      else Inr \<lparr>max_capacity = nat cap, retention_minutes = ret, items = [], item_map = []\<rparr>)"

definition cleanup_expired :: "int \<Rightarrow> heap \<Rightarrow> ShortTermMemory \<Rightarrow> ShortTermMemory" where
  "cleanup_expired now h s =
     (let expired_ids = map fst (filter (\<lambda>(mid, r).
            now - created_at (objs h r) > retention_minutes s * minute_us) (item_map s))
      in s\<lparr>item_map := fold AList.delete expired_ids (item_map s)\<rparr>)"

text \<open>The four readings of the clock that one \<open>store\<close> makes, in program order.\<close>

record store_clock =
  t_id :: int
  t_created :: int
  t_accessed :: int
  t_sweep :: int

definition ShortTermMemory_store ::
  "(string \<Rightarrow> int \<Rightarrow> string) \<Rightarrow> store_clock \<Rightarrow> string \<Rightarrow> string \<Rightarrow> real \<Rightarrow> string list option
     \<Rightarrow> (string \<times> string) list option \<Rightarrow> heap \<Rightarrow> ShortTermMemory
     \<Rightarrow> ref \<times> heap \<times> ShortTermMemory" where
  "ShortTermMemory_store mk_id clk cont mtype imp tgs ctx h s =
     (let mid = mk_id cont (t_id clk);
          item = \<lparr>memory_id = mid, content = cont, memory_type = mtype, importance = imp,
                  access_count = 1, created_at = t_created clk, last_accessed = t_accessed clk,
                  decay_rate = round_double 0.1,
                  tags = (case tgs of None \<Rightarrow> [] | Some ts \<Rightarrow> ts),
                  context_dict = (case ctx of None \<Rightarrow> [] | Some c \<Rightarrow> c)\<rparr>;
          (r, h') = alloc item h;
          s' = s\<lparr>items := deque_append (max_capacity s) (items s) r,
                 item_map := AList.update mid r (item_map s)\<rparr>
      in (r, h', cleanup_expired (t_sweep clk) h' s'))"

definition ShortTermMemory_retrieve ::
  "int \<Rightarrow> string \<Rightarrow> heap \<Rightarrow> ShortTermMemory \<Rightarrow> ref option \<times> heap" where
  "ShortTermMemory_retrieve now mid h s =
     (case map_of (item_map s) mid of
        None \<Rightarrow> (None, h)
      | Some r \<Rightarrow>
          (let it = objs h r;
               it' = it\<lparr>access_count := access_count it + 1,
                        last_accessed := now,
                        importance := min 1.0 (round_double (importance it + round_double 0.05))\<rparr>
           in (Some r, h\<lparr>objs := (objs h)(r := it')\<rparr>)))"

text \<open>
  \<open>content.lower().count(query_lower) / len(content.split())\<close>: the true division of
  two ints raises ZeroDivisionError when the content has no word, and is the double
  nearest to the quotient otherwise.
\<close>

definition relevance :: "string \<Rightarrow> string \<Rightarrow> py_error + real" where
  "relevance cont query_lower =
     (if length (split cont) = 0 then Inl ZeroDivisionError
      else Inr (round_double (real (count (lower cont) query_lower) / real (length (split cont)))))"

text \<open>The loop of \<open>search\<close> over the ring buffer.\<close>

fun stm_matches :: "string \<Rightarrow> heap \<Rightarrow> ref list \<Rightarrow> py_error + (ref \<times> real) list" where
  "stm_matches query_lower h [] = Inr []"
| "stm_matches query_lower h (r # rs) =
     (let it = objs h r in
      if contains (lower (content it)) query_lower then
        (case relevance (content it) query_lower of
           Inl e \<Rightarrow> Inl e
         | Inr rel \<Rightarrow>
             (case stm_matches query_lower h rs of
                Inl e \<Rightarrow> Inl e
              | Inr ms \<Rightarrow> Inr ((r, round_double (rel * importance it)) # ms)))
      else stm_matches query_lower h rs)"

definition ShortTermMemory_search ::
  "string \<Rightarrow> int \<Rightarrow> heap \<Rightarrow> ShortTermMemory \<Rightarrow> py_error + ref list" where
  "ShortTermMemory_search query top_k h s =
     (case stm_matches (lower query) h (items s) of
        Inl e \<Rightarrow> Inl e
      | Inr ms \<Rightarrow> Inr (map fst (slice_to top_k (sort_key (\<lambda>m. - snd m) ms))))"

definition get_all :: "ShortTermMemory \<Rightarrow> ref list" where
  "get_all s = items s"

definition get_important_items :: "real \<Rightarrow> heap \<Rightarrow> ShortTermMemory \<Rightarrow> ref list" where
  "get_important_items threshold h s = filter (\<lambda>r. importance (objs h r) \<ge> threshold) (items s)"

definition clear :: "ShortTermMemory \<Rightarrow> ShortTermMemory" where
  "clear s = s\<lparr>items := [], item_map := []\<rparr>"

text \<open>A sequence of \<open>store\<close> calls, each with its own arguments and clock readings.\<close>

record store_args =
  a_clock :: store_clock
  a_content :: string
  a_type :: string
  a_importance :: real
  a_tags :: "string list option"
  a_context :: "(string \<times> string) list option"

fun store_all ::
  "(string \<Rightarrow> int \<Rightarrow> string) \<Rightarrow> store_args list \<Rightarrow> heap \<Rightarrow> ShortTermMemory
     \<Rightarrow> ref list \<times> heap \<times> ShortTermMemory" where
  "store_all mk_id [] h s = ([], h, s)"
| "store_all mk_id (a # as) h s =
     (let (r, h', s') = ShortTermMemory_store mk_id (a_clock a) (a_content a) (a_type a)
                           (a_importance a) (a_tags a) (a_context a) h s;
          (rs, h'', s'') = store_all mk_id as h' s'
      in (r # rs, h'', s''))"

subsection \<open>LongTermMemory\<close>

text \<open>
  The storage directory maps the stem of each \<open>*.json\<close> file to the item its JSON text
  denotes, or to \<open>None\<close> when the text does not parse as an item. The secondary indices
  map a tag or a type to a set of ids.
\<close>

record LongTermMemory =
  index :: "(string \<times> ref) list"
  tag_index :: "(string \<times> string set) list"
  type_index :: "(string \<times> string set) list"
  files :: "(string \<times> MemoryItem option) list"

text \<open>
  \<open>if key not in idx: idx[key] = set()\<close> followed by \<open>idx[key].add(mid)\<close>.
\<close>

definition index_add :: "string \<Rightarrow> string \<Rightarrow> (string \<times> string set) list \<Rightarrow> (string \<times> string set) list" where
  "index_add key mid idx =
     AList.update key (insert mid (case map_of idx key of None \<Rightarrow> {} | Some ids \<Rightarrow> ids)) idx"

text \<open>\<open>if key in idx: idx[key].discard(mid)\<close>.\<close>

definition index_discard :: "string \<Rightarrow> string \<Rightarrow> (string \<times> string set) list \<Rightarrow> (string \<times> string set) list" where
  "index_discard key mid idx =
     (case map_of idx key of None \<Rightarrow> idx | Some ids \<Rightarrow> AList.update key (ids - {mid}) idx)"

text \<open>
  \<open>_load_memories\<close>: every file that parses becomes a new object; the others are
  skipped with a warning. The files are visited in the order of the list.
\<close>

fun load_memories :: "(string \<times> MemoryItem option) list \<Rightarrow> heap \<Rightarrow> LongTermMemory \<Rightarrow> heap \<times> LongTermMemory" where
  "load_memories [] h l = (h, l)"
| "load_memories ((name, None) # fs) h l = load_memories fs h l"
| "load_memories ((name, Some it) # fs) h l =
     (let (r, h') = alloc it h;
          l' = l\<lparr>index := AList.update (memory_id it) r (index l),
                 tag_index := fold (\<lambda>tag ti. index_add tag (memory_id it) ti) (tags it) (tag_index l),
                 type_index := index_add (memory_type it) (memory_id it) (type_index l)\<rparr>
      in load_memories fs h' l')"

definition LongTermMemory_init :: "(string \<times> MemoryItem option) list \<Rightarrow> heap \<Rightarrow> heap \<times> LongTermMemory" where
  "LongTermMemory_init fs h = load_memories fs h \<lparr>index = [], tag_index = [], type_index = [], files = fs\<rparr>"

text \<open>
  \<open>_save_memory\<close> writes the record of the item under its id; a failed write is caught
  and leaves the directory as it was. Whether the write succeeds is the argument \<open>ok\<close>.
\<close>

definition save_memory :: "bool \<Rightarrow> MemoryItem \<Rightarrow> (string \<times> MemoryItem option) list \<Rightarrow> (string \<times> MemoryItem option) list" where
  "save_memory ok it fs = (if ok then AList.update (memory_id it) (Some it) fs else fs)"

definition LongTermMemory_store :: "(MemoryItem \<Rightarrow> bool) \<Rightarrow> ref \<Rightarrow> heap \<Rightarrow> LongTermMemory \<Rightarrow> LongTermMemory" where
  "LongTermMemory_store write_ok r h l =
     (let it = objs h r in
      l\<lparr>index := AList.update (memory_id it) r (index l),
        files := save_memory (write_ok it) it (files l),
        tag_index := fold (\<lambda>tag ti. index_add tag (memory_id it) ti) (tags it) (tag_index l),
        type_index := index_add (memory_type it) (memory_id it) (type_index l)\<rparr>)"

definition LongTermMemory_retrieve ::
  "(MemoryItem \<Rightarrow> bool) \<Rightarrow> int \<Rightarrow> string \<Rightarrow> heap \<Rightarrow> LongTermMemory \<Rightarrow> ref option \<times> heap \<times> LongTermMemory" where
  "LongTermMemory_retrieve write_ok now mid h l =
     (case map_of (index l) mid of
        None \<Rightarrow> (None, h, l)
      | Some r \<Rightarrow>
          (let it = objs h r;
               it' = it\<lparr>access_count := access_count it + 1, last_accessed := now\<rparr>
           in (Some r, h\<lparr>objs := (objs h)(r := it')\<rparr>,
               l\<lparr>files := save_memory (write_ok it') it' (files l)\<rparr>)))"

text \<open>
  The scoring loop of \<open>search\<close> when a query is given. The score is
  \<open>relevance * importance * (1 + access_count * 0.1)\<close>, each operation rounded; the
  product with 0.1 first converts the access count to a float.
\<close>

fun ltm_scored :: "string \<Rightarrow> heap \<Rightarrow> ref list \<Rightarrow> py_error + (ref \<times> real) list" where
  "ltm_scored query_lower h [] = Inr []"
| "ltm_scored query_lower h (r # rs) =
     (let it = objs h r in
      if contains (lower (content it)) query_lower then
        (case relevance (content it) query_lower of
           Inl e \<Rightarrow> Inl e
         | Inr rel \<Rightarrow>
             (case float_of_int (access_count it) of
                Inl e \<Rightarrow> Inl e
              | Inr ac \<Rightarrow>
                  (let score = round_double (round_double (rel * importance it)
                                 * round_double (1 + round_double (ac * round_double 0.1)))
                   in case ltm_scored query_lower h rs of
                        Inl e \<Rightarrow> Inl e
                      | Inr ms \<Rightarrow> Inr ((r, score) # ms))))
      else ltm_scored query_lower h rs)"

text \<open>
  \<open>search\<close>, in its three stages. The candidates are a Python set of ids: its members
  are listed here as the index lists them, and membership is all that the two filters
  use. A \<open>None\<close> or empty \<open>tags\<close>, \<open>memory_type\<close> or \<open>query\<close> is falsy.
\<close>

definition search_candidates :: "string list option \<Rightarrow> string option \<Rightarrow> LongTermMemory \<Rightarrow> string list" where
  "search_candidates tgs mtype l =
     (let c0 = map fst (index l);
          c1 = (case tgs of
                  None \<Rightarrow> c0
                | Some ts \<Rightarrow>
                    if ts = [] then c0
                    else (let tag_matches = fold (\<lambda>tag acc. case map_of (tag_index l) tag of
                                                      None \<Rightarrow> acc | Some ids \<Rightarrow> acc \<union> ids) ts {}
                          in filter (\<lambda>mid. mid \<in> tag_matches) c0))
      in (case mtype of
            None \<Rightarrow> c1
          | Some mt \<Rightarrow>
              if mt = [] then c1
              else (case map_of (type_index l) mt of
                      None \<Rightarrow> c1
                    | Some ids \<Rightarrow> filter (\<lambda>mid. mid \<in> ids) c1)))"

text \<open>
  The comprehension over the candidate set enumerates it in an order the language leaves
  open: \<open>set_order\<close> is that order, a rearrangement of the listed candidates.
\<close>

definition search_items :: "(string list \<Rightarrow> string list) \<Rightarrow> real \<Rightarrow> heap \<Rightarrow> LongTermMemory \<Rightarrow> string list \<Rightarrow> ref list" where
  "search_items set_order min_imp h l candidates =
     filter (\<lambda>r. importance (objs h r) \<ge> min_imp)
       (List.map_filter (map_of (index l)) (set_order candidates))"

definition by_importance :: "int \<Rightarrow> heap \<Rightarrow> ref list \<Rightarrow> ref list" where
  "by_importance top_k h rs =
     slice_to top_k (sort_key (\<lambda>r. (- importance (objs h r), - access_count (objs h r))) rs)"

definition LongTermMemory_search ::
  "(string list \<Rightarrow> string list) \<Rightarrow> string option \<Rightarrow> string list option \<Rightarrow> string option \<Rightarrow> real \<Rightarrow> int
     \<Rightarrow> heap \<Rightarrow> LongTermMemory \<Rightarrow> py_error + ref list" where
  "LongTermMemory_search set_order query tgs mtype min_imp top_k h l =
     (let kept = search_items set_order min_imp h l (search_candidates tgs mtype l)
      in case query of
           None \<Rightarrow> Inr (by_importance top_k h kept)
         | Some q \<Rightarrow>
             if q = [] then Inr (by_importance top_k h kept)
             else (case ltm_scored (lower q) h kept of
                     Inl e \<Rightarrow> Inl e
                   | Inr scored \<Rightarrow> Inr (map fst (slice_to top_k (sort_key (\<lambda>m. - snd m) scored)))))"

text \<open>
  The test of \<open>prune\<close> on one item; \<open>age.days\<close> is the whole number of days of the age,
  and each of the four float operations of the decayed importance is rounded.
\<close>

definition prune_due :: "real \<Rightarrow> int \<Rightarrow> int \<Rightarrow> MemoryItem \<Rightarrow> bool" where
  "prune_due min_imp max_age_days now it =
     (let age = now - created_at it;
          decayed_importance =
            round_double (importance it
              * round_double (1 - round_double (decay_rate it
                  * round_double (real_of_int (age div day_us) / 365.0))))
      in decayed_importance < min_imp \<or> age > max_age_days * day_us)"

text \<open>
  One round of the removal loop. The ids to remove are keys of the index, so the lookup
  finds the item.
\<close>

definition prune_remove :: "heap \<Rightarrow> string \<Rightarrow> LongTermMemory \<Rightarrow> LongTermMemory" where
  "prune_remove h mid l =
     (case map_of (index l) mid of
        None \<Rightarrow> l
      | Some r \<Rightarrow>
          (let it = objs h r in
           l\<lparr>index := AList.delete mid (index l),
             tag_index := fold (\<lambda>tag ti. index_discard tag mid ti) (tags it) (tag_index l),
             type_index := index_discard (memory_type it) mid (type_index l),
             files := AList.delete mid (files l)\<rparr>))"

text \<open>
  \<open>prune\<close> first builds \<open>timedelta(days=max_age_days)\<close>, which raises OverflowError
  for more than 999999999 days in either direction.
\<close>

definition prune :: "real \<Rightarrow> int \<Rightarrow> int \<Rightarrow> heap \<Rightarrow> LongTermMemory \<Rightarrow> py_error + nat \<times> LongTermMemory" where
  "prune min_imp max_age_days now h l =
     (if \<bar>max_age_days\<bar> > 999999999 then Inl OverflowError
      else (let to_remove = map fst (filter (\<lambda>(mid, r).
                   prune_due min_imp max_age_days now (objs h r)) (index l))
            in Inr (length to_remove, fold (prune_remove h) to_remove l)))"

subsection \<open>LayeredMemorySystem\<close>

record LayeredMemorySystem =
  short_term :: ShortTermMemory
  long_term :: LongTermMemory
  consolidation_rules :: "ConsolidationRule list"

definition default_rules :: "ConsolidationRule list" where
  "default_rules =
     [\<lparr>min_access_count = 2, min_importance = 0.7, min_age_hours = 0.5, required_tags = None\<rparr>,
      \<lparr>min_access_count = 5, min_importance = 0.5, min_age_hours = 1.0, required_tags = None\<rparr>]"

definition LayeredMemorySystem_init ::
  "int \<Rightarrow> int \<Rightarrow> (string \<times> MemoryItem option) list \<Rightarrow> heap \<Rightarrow> py_error + heap \<times> LayeredMemorySystem" where
  "LayeredMemorySystem_init stm_capacity stm_retention_minutes fs h =
     (case ShortTermMemory_init stm_capacity stm_retention_minutes of
        Inl e \<Rightarrow> Inl e
      | Inr s \<Rightarrow> (let (h', l) = LongTermMemory_init fs h
                 in Inr (h', \<lparr>short_term = s, long_term = l, consolidation_rules = default_rules\<rparr>)))"

definition LayeredMemorySystem_store ::
  "(string \<Rightarrow> int \<Rightarrow> string) \<Rightarrow> (MemoryItem \<Rightarrow> bool) \<Rightarrow> store_clock \<Rightarrow> string \<Rightarrow> string \<Rightarrow> real
     \<Rightarrow> string list option \<Rightarrow> (string \<times> string) list option \<Rightarrow> bool \<Rightarrow> heap \<Rightarrow> LayeredMemorySystem
     \<Rightarrow> ref \<times> heap \<times> LayeredMemorySystem" where
  "LayeredMemorySystem_store mk_id write_ok clk cont mtype imp tgs ctx force_long_term h sys =
     (let (r, h', s') = ShortTermMemory_store mk_id clk cont mtype imp tgs ctx h (short_term sys);
          l' = (if force_long_term \<or> imp \<ge> 0.8
                then LongTermMemory_store write_ok r h' (long_term sys)
                else long_term sys)
      in (r, h', sys\<lparr>short_term := s', long_term := l'\<rparr>))"

text \<open>
  The loop over the rules for one item of the ring buffer: \<open>continue\<close> goes on with the
  next rule, \<open>break\<close> ends the loop. The pair carries the long-term memory and
  \<open>consolidated_count\<close>.
\<close>

fun apply_rules ::
  "(MemoryItem \<Rightarrow> bool) \<Rightarrow> ref \<Rightarrow> real \<Rightarrow> heap \<Rightarrow> ConsolidationRule list
     \<Rightarrow> LongTermMemory \<times> nat \<Rightarrow> LongTermMemory \<times> nat" where
  "apply_rules write_ok r age_hours h [] (l, n) = (l, n)"
| "apply_rules write_ok r age_hours h (rule # rules) (l, n) =
     (let it = objs h r in
      if access_count it \<ge> min_access_count rule \<and> importance it \<ge> min_importance rule
         \<and> age_hours \<ge> min_age_hours rule
      then (if (case required_tags rule of
                  None \<Rightarrow> False
                | Some rt \<Rightarrow> rt \<noteq> [] \<and> \<not> (\<exists>tag \<in> set rt. tag \<in> set (tags it)))
            then apply_rules write_ok r age_hours h rules (l, n)
            else (if map_of (index l) (memory_id it) = None
                  then (LongTermMemory_store write_ok r h l, n + 1)
                  else (l, n)))
      else apply_rules write_ok r age_hours h rules (l, n))"

definition age_hours_at :: "int \<Rightarrow> MemoryItem \<Rightarrow> real" where
  "age_hours_at now it = real_of_int (now - created_at it) / hour_us"

record consolidation_result =
  consolidated :: nat
  stm_count :: nat
  ltm_count :: nat
  timestamp :: int

definition consolidate_memories ::
  "(MemoryItem \<Rightarrow> bool) \<Rightarrow> int \<Rightarrow> heap \<Rightarrow> LayeredMemorySystem \<Rightarrow> consolidation_result \<times> LayeredMemorySystem" where
  "consolidate_memories write_ok now h sys =
     (let (l', n) = fold (\<lambda>r acc. apply_rules write_ok r (age_hours_at now (objs h r)) h
                                    (consolidation_rules sys) acc)
                         (get_all (short_term sys)) (long_term sys, 0)
      in (\<lparr>consolidated = n, stm_count = length (get_all (short_term sys)),
           ltm_count = length (index l'), timestamp = now\<rparr>,
          sys\<lparr>long_term := l'\<rparr>))"

definition auto_maintain ::
  "(MemoryItem \<Rightarrow> bool) \<Rightarrow> int \<Rightarrow> int \<Rightarrow> heap \<Rightarrow> LayeredMemorySystem
     \<Rightarrow> py_error + LayeredMemorySystem" where
  "auto_maintain write_ok now_consolidate now_prune h sys =
     (let sys' = snd (consolidate_memories write_ok now_consolidate h sys)
      in case prune (round_double 0.1) 365 now_prune h (long_term sys') of
           Inl e \<Rightarrow> Inl e
         | Inr (n, l') \<Rightarrow> Inr (sys'\<lparr>long_term := l'\<rparr>))"

subsection \<open>Auxiliary notions\<close>

text \<open>
  The item that \<open>ShortTermMemory.store\<close> builds from its arguments and clock readings.
\<close>

definition new_item ::
  "(string \<Rightarrow> int \<Rightarrow> string) \<Rightarrow> store_clock \<Rightarrow> string \<Rightarrow> string \<Rightarrow> real \<Rightarrow> string list option
     \<Rightarrow> (string \<times> string) list option \<Rightarrow> MemoryItem" where
  "new_item mk_id clk cont mtype imp tgs ctx =
     \<lparr>memory_id = mk_id cont (t_id clk), content = cont, memory_type = mtype, importance = imp,
      access_count = 1, created_at = t_created clk, last_accessed = t_accessed clk,
      decay_rate = round_double 0.1,
      tags = (case tgs of None \<Rightarrow> [] | Some ts \<Rightarrow> ts),
      context_dict = (case ctx of None \<Rightarrow> [] | Some c \<Rightarrow> c)\<rparr>"

text \<open>The set of ids that a secondary index holds under a key (empty for a missing key).\<close>

definition bucket :: "(string \<times> string set) list \<Rightarrow> string \<Rightarrow> string set" where
  "bucket idx key = (case map_of idx key of None \<Rightarrow> {} | Some ids \<Rightarrow> ids)"


subsection \<open>Values for the examples\<close>

text \<open>
  A heap in which nothing is allocated yet (no reference is read before it is allocated),
  a stand-in for the digest that names an item by its content alone, a clock that
  stands still during one call, and a disk on which every write succeeds.
\<close>

definition blank_item :: MemoryItem where
  "blank_item = \<lparr>memory_id = [], content = [], memory_type = [], importance = 0,
                  access_count = 0, created_at = 0, last_accessed = 0, decay_rate = 0,
                  tags = [], context_dict = []\<rparr>"

definition empty_heap :: heap where
  "empty_heap = \<lparr>objs = (\<lambda>_. blank_item), next_ref = 0\<rparr>"

definition content_id :: "string \<Rightarrow> int \<Rightarrow> string" where
  "content_id cont t = cont"

definition clock_at :: "int \<Rightarrow> store_clock" where
  "clock_at t = \<lparr>t_id = t, t_created = t, t_accessed = t, t_sweep = t\<rparr>"

definition always_ok :: "MemoryItem \<Rightarrow> bool" where
  "always_ok it = True"

definition plain_args :: "int \<Rightarrow> string \<Rightarrow> real \<Rightarrow> store_args" where
  "plain_args t cont imp = \<lparr>a_clock = clock_at t, a_content = cont, a_type = ''episodic'',
       a_importance = imp, a_tags = None, a_context = None\<rparr>"

definition stm3 :: ShortTermMemory where
  "stm3 = \<lparr>max_capacity = 3, retention_minutes = 30, items = [], item_map = []\<rparr>"

definition abcd :: "store_args list" where
  "abcd = [plain_args 0 ''A'' 0.9, plain_args 1 ''B'' 0.1, plain_args 2 ''C'' 0.5, plain_args 3 ''D'' 0.2]"

text \<open>A working memory of capacity 3 after one item of importance 0.9 was stored.\<close>

definition stored_09 :: "ref \<times> heap \<times> ShortTermMemory" where
  "stored_09 = ShortTermMemory_store content_id (clock_at 0) ''A'' ''episodic'' (round_double 0.9)
                 None None empty_heap stm3"

text \<open>The system that \<open>LayeredMemorySystem()\<close> builds over an empty storage directory.\<close>

definition fresh_system :: LayeredMemorySystem where
  "fresh_system =
     \<lparr>short_term = \<lparr>max_capacity = 20, retention_minutes = 30, items = [], item_map = []\<rparr>,
      long_term = \<lparr>index = [], tag_index = [], type_index = [], files = []\<rparr>,
      consolidation_rules = default_rules\<rparr>"

text \<open>
  A working memory holding one item whose content is the empty string, one holding the
  item ``two words'', and a system whose long-term memory holds one item whose content
  is a single space.
\<close>

definition stored_empty :: "ref \<times> heap \<times> ShortTermMemory" where
  "stored_empty = ShortTermMemory_store content_id (clock_at 0) '''' ''episodic'' 0.5 None None empty_heap stm3"

definition stored_two :: "ref \<times> heap \<times> ShortTermMemory" where
  "stored_two = ShortTermMemory_store content_id (clock_at 0) ''two words'' ''episodic'' 0.5 None None empty_heap stm3"

definition stored_blank :: "ref \<times> heap \<times> LayeredMemorySystem" where
  "stored_blank = LayeredMemorySystem_store content_id always_ok (clock_at 0) '' '' ''episodic'' 0.5
                    None None True empty_heap fresh_system"

text \<open>
  A working memory holding one item whose content is a no-break space (code point 160),
  and a system whose long-term memory holds the item ``One''.
\<close>

definition stored_nbsp :: "ref \<times> heap \<times> ShortTermMemory" where
  "stored_nbsp = ShortTermMemory_store content_id (clock_at 0) [CHR 0xA0] ''episodic'' 0.5 None None
                   empty_heap stm3"

definition stored_one :: "ref \<times> heap \<times> LayeredMemorySystem" where
  "stored_one = LayeredMemorySystem_store content_id always_ok (clock_at 0) ''One'' ''episodic'' 0.5
                  None None True empty_heap fresh_system"




text \<open>
  A system after the item ``A'' of importance 0.9, type ``semantic'' and tag ``a'' was
  stored at instant 0: the item is in both memories.
\<close>

definition stored_lt :: "ref \<times> heap \<times> LayeredMemorySystem" where
  "stored_lt = LayeredMemorySystem_store content_id always_ok (clock_at 0) ''A'' ''semantic'' 0.9
                 (Some [''a'']) None False empty_heap fresh_system"










text \<open>
  A system in which the content ``m'' was stored twice at the same clock reading, hence
  under the same id, first with the tag ``a'' and then with the tag ``b'', both times
  with importance 0.9.
\<close>

definition stored_m1 :: "ref \<times> heap \<times> LayeredMemorySystem" where
  "stored_m1 = LayeredMemorySystem_store content_id always_ok (clock_at 0) ''m'' ''episodic'' 0.9
                 (Some [''a'']) None False empty_heap fresh_system"

definition stored_m2 :: "ref \<times> heap \<times> LayeredMemorySystem" where
  "stored_m2 = LayeredMemorySystem_store content_id always_ok (clock_at 0) ''m'' ''episodic'' 0.9
                 (Some [''b'']) None False (fst (snd stored_m1)) (snd (snd stored_m1))"

text \<open>
  A system in which the content ``k'' was stored twice at the same clock reading, hence
  under the same id, first as an ``episodic'' item with the tag ``a'' and then as a
  ``semantic'' item with the tag ``b'', both times with importance 0.5 and forced into
  the long-term memory.
\<close>

definition stored_k1 :: "ref \<times> heap \<times> LayeredMemorySystem" where
  "stored_k1 = LayeredMemorySystem_store content_id always_ok (clock_at 0) ''k'' ''episodic'' 0.5
                 (Some [''a'']) None True empty_heap fresh_system"

definition stored_k2 :: "ref \<times> heap \<times> LayeredMemorySystem" where
  "stored_k2 = LayeredMemorySystem_store content_id always_ok (clock_at 0) ''k'' ''semantic'' 0.5
                 (Some [''b'']) None True (fst (snd stored_k1)) (snd (snd stored_k1))"

section \<open>Rounding to a double\<close>

lemma round_half_even_near:
  assumes "of_int m - 1 / 2 < y" and "y < of_int m + 1 / 2"
  shows "round_half_even y = m"
proof -
  have "\<lfloor>y\<rfloor> = m \<or> \<lfloor>y\<rfloor> = m - 1" using assms by linarith
  then show ?thesis
  proof
    assume f: "\<lfloor>y\<rfloor> = m"
    then have "y - of_int m < 1 / 2" using assms by linarith
    then show ?thesis by (simp add: round_half_even_def f)
  next
    assume f: "\<lfloor>y\<rfloor> = m - 1"
    then have "y - of_int (m - 1) > 1 / 2" using assms by simp
    then show ?thesis by (simp add: round_half_even_def f)
  qed
qed

lemma ulp_exponent_eq:
  assumes "x \<noteq> 0" and "2 powi e \<le> \<bar>x\<bar>" and "\<bar>x\<bar> < 2 powi (e + 1)" and "- 1022 \<le> e"
  shows "ulp_exponent x = e - 52"
proof -
  have a: "(2::real) powr (of_int e) = 2 powi e" by (simp add: powr_real_of_int')
  have b: "(2::real) powr (of_int e + 1) = 2 powi (e + 1)"
    using powr_real_of_int'[of 2 "e + 1"] by simp
  have "0 < \<bar>x\<bar>" using assms(1) by simp
  then have "\<lfloor>log 2 \<bar>x\<bar>\<rfloor> = e \<longleftrightarrow> 2 powr (of_int e) \<le> \<bar>x\<bar> \<and> \<bar>x\<bar> < 2 powr (of_int e + 1)"
    using floor_log_eq_powr_iff[of "\<bar>x\<bar>" 2 e] by simp
  then have "\<lfloor>log 2 \<bar>x\<bar>\<rfloor> = e" using assms(2,3) a b by simp
  then show ?thesis using assms(4) by (simp add: ulp_exponent_def)
qed

lemma round_half_even_tie: "round_half_even (of_int f + 1 / 2) = (if even f then f else f + 1)"
proof -
  have "\<lfloor>(of_int f :: real) + 1 / 2\<rfloor> = f" by linarith
  then show ?thesis by (simp add: round_half_even_def)
qed

text \<open>
  The double nearest to a real of the binade \<open>[2^e, 2^(e+1))\<close> that lies strictly within
  half a unit in the last place of \<open>m * 2^(e-52)\<close>.
\<close>

lemma round_double_eq:
  assumes "x \<noteq> 0" and "2 powi e \<le> \<bar>x\<bar>" and "\<bar>x\<bar> < 2 powi (e + 1)" and "- 1022 \<le> e"
    and "of_int m - 1 / 2 < x / 2 powi (e - 52)" and "x / 2 powi (e - 52) < of_int m + 1 / 2"
  shows "round_double x = of_int m * 2 powi (e - 52)"
  using assms by (simp add: round_double_def ulp_exponent_eq[OF assms(1-4)] round_half_even_near)

text \<open>The doubles that the literals 0.9, 0.05 and 0.95 denote.\<close>

lemma double_09: "round_double 0.9 = 8106479329266893 / 2 ^ 53"
  using round_double_eq[of "0.9" "-1" 8106479329266893] by (simp add: power_int_minus)

lemma double_005: "round_double 0.05 = 7205759403792794 / 2 ^ 57"
  using round_double_eq[of "0.05" "-5" 7205759403792794] by (simp add: power_int_minus)

lemma double_095: "round_double 0.95 = 8556839292003942 / 2 ^ 53"
  using round_double_eq[of "0.95" "-1" 8556839292003942] by (simp add: power_int_minus)

text \<open>
  The three sums of the example: 0.9 + 0.05 is one unit in the last place above the
  double 0.95, that plus 0.05 rounds to 1, and 1 + 0.05 is above 1.
\<close>

lemma sum_09_005:
  "round_double (8106479329266893 / 2 ^ 53 + 7205759403792794 / 2 ^ 57) = 8556839292003943 / 2 ^ 53"
  using round_double_eq[of "8106479329266893 / 2 ^ 53 + 7205759403792794 / 2 ^ 57" "-1" 8556839292003943]
  by (simp add: power_int_minus)

lemma sum_095_005:
  "round_double (8556839292003943 / 2 ^ 53 + 7205759403792794 / 2 ^ 57) = 1"
  using round_double_eq[of "8556839292003943 / 2 ^ 53 + 7205759403792794 / 2 ^ 57" 0 4503599627370496]
  by (simp add: power_int_minus)

lemma sum_1_005:
  "round_double (1 + 7205759403792794 / 2 ^ 57) = 4728779608739021 / 2 ^ 52"
  using round_double_eq[of "1 + 7205759403792794 / 2 ^ 57" 0 4728779608739021]
  by (simp add: power_int_minus)

section \<open>Working memory: capacity and eviction\<close>


lemma deque_append_drop:
  "length xs \<le> n \<Longrightarrow> deque_append n xs x = drop (length xs + 1 - n) (xs @ [x])"
proof (cases "length xs < n")
  case True
  then show ?thesis by (simp add: deque_append_def Let_def)
next
  case False
  assume "length xs \<le> n"
  with False have "length xs = n" by simp
  then show ?thesis by (cases xs) (auto simp: deque_append_def Let_def)
qed

lemma deque_append_length:
  "length xs \<le> n \<Longrightarrow> length (deque_append n xs x) \<le> n"
  by (auto simp: deque_append_def Let_def)

lemma cleanup_expired_items [simp]: "items (cleanup_expired now h s) = items s"
  by (simp add: cleanup_expired_def Let_def)

lemma cleanup_expired_max_capacity [simp]:
  "max_capacity (cleanup_expired now h s) = max_capacity s"
  by (simp add: cleanup_expired_def Let_def)

lemma cleanup_expired_retention [simp]:
  "retention_minutes (cleanup_expired now h s) = retention_minutes s"
  by (simp add: cleanup_expired_def Let_def)

lemma store_unfold:
  assumes "ShortTermMemory_store mk_id clk cont mtype imp tgs ctx h s = (r, h', s')"
  shows "r = next_ref h"
    and "next_ref h' = Suc (next_ref h)"
    and "objs h' = (objs h)(next_ref h := new_item mk_id clk cont mtype imp tgs ctx)"
    and "items s' = deque_append (max_capacity s) (items s) (next_ref h)"
    and "max_capacity s' = max_capacity s"
    and "retention_minutes s' = retention_minutes s"
  using assms by (auto simp: ShortTermMemory_store_def alloc_def Let_def new_item_def)

lemma store_all_shape:
  "store_all mk_id as h s = (rs, h', s') \<Longrightarrow> length (items s) \<le> max_capacity s \<Longrightarrow>
   rs = [next_ref h ..< next_ref h + length as] \<and> next_ref h' = next_ref h + length as
   \<and> max_capacity s' = max_capacity s
   \<and> items s' = drop (length (items s) + length as - max_capacity s) (items s @ rs)"
proof (induction as arbitrary: h s rs h' s')
  case Nil
  then show ?case by simp
next
  case (Cons a as)
  obtain r h1 s1 where st: "ShortTermMemory_store mk_id (a_clock a) (a_content a) (a_type a)
                           (a_importance a) (a_tags a) (a_context a) h s = (r, h1, s1)"
    by (metis prod_cases3)
  obtain rs2 where rest: "store_all mk_id as h1 s1 = (rs2, h', s')" and rs: "rs = r # rs2"
    using Cons.prems(1) st by (auto split: prod.splits)
  note u = store_unfold[OF st]
  have len1: "length (items s1) \<le> max_capacity s1"
    using u(4,5) deque_append_length[OF Cons.prems(2)] by simp
  note ih = Cons.IH[OF rest len1]
  have rs2: "rs2 = [Suc (next_ref h) ..< Suc (next_ref h) + length as]" using ih u(2) by simp
  have "[next_ref h ..< next_ref h + Suc (length as)]
          = next_ref h # [Suc (next_ref h) ..< next_ref h + Suc (length as)]"
    by (rule upt_conv_Cons) simp
  then have "rs = [next_ref h ..< next_ref h + length (a # as)]"
    using rs rs2 u(1) by (simp del: upt_Suc)
  moreover have "next_ref h' = next_ref h + length (a # as)" using ih u(2) by simp
  moreover have "max_capacity s' = max_capacity s" using ih u(5) by simp
  moreover have "items s' = drop (length (items s) + length (a # as) - max_capacity s) (items s @ rs)"
  proof -
    have i1: "items s1 = drop (length (items s) + 1 - max_capacity s) (items s @ [r])"
      using u(4) u(1) deque_append_drop[OF Cons.prems(2)] by simp
    have "items s' = drop (length (items s1) + length as - max_capacity s) (items s1 @ rs2)"
      using ih u(5) by simp
    also have "\<dots> = drop (length (items s) + length (a # as) - max_capacity s) (items s @ r # rs2)"
    proof (cases "length (items s) < max_capacity s")
      case True
      then show ?thesis using i1 by simp
    next
      case False
      then have eq: "length (items s) = max_capacity s" using Cons.prems(2) by simp
      then show ?thesis using i1 by (cases "items s") (auto)
    qed
    finally show ?thesis using rs by simp
  qed
  ultimately show ?case by blast
qed

lemma store_all_heap_old:
  "store_all mk_id as h s = (rs, h', s') \<Longrightarrow> r < next_ref h \<Longrightarrow> objs h' r = objs h r"
proof (induction as arbitrary: h s rs h' s')
  case Nil
  then show ?case by simp
next
  case (Cons a as)
  obtain r1 h1 s1 where st: "ShortTermMemory_store mk_id (a_clock a) (a_content a) (a_type a)
                           (a_importance a) (a_tags a) (a_context a) h s = (r1, h1, s1)"
    by (metis prod_cases3)
  obtain rs2 where rest: "store_all mk_id as h1 s1 = (rs2, h', s')"
    using Cons.prems(1) st by (auto split: prod.splits)
  note u = store_unfold[OF st]
  have "objs h' r = objs h1 r" using Cons.IH[OF rest] Cons.prems(2) u(2) by simp
  then show ?case using u(3) Cons.prems(2) by simp
qed

lemma store_all_heap_new:
  "store_all mk_id as h s = (rs, h', s') \<Longrightarrow> i < length as \<Longrightarrow>
   objs h' (next_ref h + i) = new_item mk_id (a_clock (as ! i)) (a_content (as ! i)) (a_type (as ! i))
                           (a_importance (as ! i)) (a_tags (as ! i)) (a_context (as ! i))"
proof (induction as arbitrary: h s rs h' s' i)
  case Nil
  then show ?case by simp
next
  case (Cons a as)
  obtain r1 h1 s1 where st: "ShortTermMemory_store mk_id (a_clock a) (a_content a) (a_type a)
                           (a_importance a) (a_tags a) (a_context a) h s = (r1, h1, s1)"
    by (metis prod_cases3)
  obtain rs2 where rest: "store_all mk_id as h1 s1 = (rs2, h', s')"
    using Cons.prems(1) st by (auto split: prod.splits)
  note u = store_unfold[OF st]
  show ?case
  proof (cases i)
    case 0
    have "objs h' (next_ref h) = objs h1 (next_ref h)"
      using store_all_heap_old[OF rest, of "next_ref h"] u(2) by simp
    then show ?thesis using 0 u(3) by simp
  next
    case (Suc j)
    then have "j < length as" using Cons.prems(2) by simp
    from Cons.IH[OF rest this] show ?thesis using Suc u(2) by simp
  qed
qed

text \<open>
  C1. A working memory of capacity \<open>c\<close> (holding at most \<open>c\<close> items, as a deque of that
  maximal length does) into which \<open>c + 1\<close> items are stored holds exactly \<open>c\<close> items
  afterwards: the items stored second to last, in the order of their insertion. The item
  stored first is gone, whatever the importance values are. Each stored object carries
  the content and importance it was stored with.
\<close>

theorem capacity_fifo:
  assumes "length (items s) \<le> max_capacity s"
    and "length as = max_capacity s + 1"
    and "store_all mk_id as h s = (rs, h', s')"
  shows "length (items s') = max_capacity s \<and> items s' = tl rs \<and> length rs = max_capacity s + 1
         \<and> hd rs \<notin> set (items s')
         \<and> (\<forall>i < length as. content (objs h' (rs ! i)) = a_content (as ! i)
                \<and> importance (objs h' (rs ! i)) = a_importance (as ! i))"
proof -
  note sh = store_all_shape[OF assms(3) assms(1)]
  have rs: "rs = [next_ref h ..< next_ref h + length as]" using sh by simp
  have len: "length rs = max_capacity s + 1" using rs assms(2) by simp
  have it: "items s' = tl rs" using sh assms(2) by (simp add: drop_Suc)
  have d: "distinct rs" using rs by simp
  have "rs \<noteq> []" using len by auto
  then have hd: "hd rs \<notin> set (tl rs)" using d by (cases rs) auto
  have "\<forall>i < length as. content (objs h' (rs ! i)) = a_content (as ! i)
                \<and> importance (objs h' (rs ! i)) = a_importance (as ! i)"
    using store_all_heap_new[OF assms(3)] rs by (simp add: new_item_def)
  then show ?thesis using len it hd by simp
qed


theorem capacity_fifo_witness:
  "length (items stm3) \<le> max_capacity stm3 \<and> length abcd = max_capacity stm3 + 1
   \<and> items (snd (snd (store_all content_id abcd empty_heap stm3)))
       = tl (fst (store_all content_id abcd empty_heap stm3))
   \<and> map (\<lambda>r. content (objs (fst (snd (store_all content_id abcd empty_heap stm3))) r))
         (items (snd (snd (store_all content_id abcd empty_heap stm3)))) = [''B'', ''C'', ''D'']"
proof -
  obtain rs h' s' where run: "store_all content_id abcd empty_heap stm3 = (rs, h', s')"
    by (metis prod_cases3)
  have h1: "length (items stm3) \<le> max_capacity stm3" by (simp add: stm3_def)
  have h2: "length abcd = max_capacity stm3 + 1" by (simp add: stm3_def abcd_def)
  note t = capacity_fifo[OF h1 h2 run]
  have "length rs = 4" using t by (simp add: stm3_def)
  then obtain a b c d where rs: "rs = [a, b, c, d]"
    by (auto simp: length_Suc_conv numeral_eq_Suc)
  have c: "\<forall>i<4. content (objs h' (rs ! i)) = a_content (abcd ! i)" using t h2 by (simp add: stm3_def)
  have c1: "content (objs h' b) = ''B''" using c[rule_format, of 1] rs by (simp add: abcd_def plain_args_def)
  have c2: "content (objs h' c) = ''C''" using c[rule_format, of 2] rs by (simp add: abcd_def plain_args_def)
  have c3: "content (objs h' d) = ''D''" using c[rule_format, of 3] rs by (simp add: abcd_def plain_args_def)
  have "items s' = [b, c, d]" using t rs by simp
  then show ?thesis using h1 h2 run rs c1 c2 c3 by simp
qed

section \<open>Working memory: retrieval\<close>

lemma retrieve_hit:
  assumes "map_of (item_map s) mid = Some r"
  shows "ShortTermMemory_retrieve now mid h s =
           (Some r, h\<lparr>objs := (objs h)(r := (objs h r)\<lparr>access_count := access_count (objs h r) + 1,
                        last_accessed := now,
                        importance := min 1 (round_double (importance (objs h r)
                                                             + round_double 0.05))\<rparr>)\<rparr>)"
  using assms by (simp add: ShortTermMemory_retrieve_def Let_def)

lemma retrieve_importance:
  assumes "map_of (item_map s) mid = Some r"
  shows "importance (objs (snd (ShortTermMemory_retrieve now mid h s)) r)
           = min 1 (round_double (importance (objs h r) + round_double 0.05))"
  by (simp add: retrieve_hit[OF assms])

lemma stored_09_eval:
  "fst stored_09 = 0" "map_of (item_map (snd (snd stored_09))) ''A'' = Some 0"
  "importance (objs (fst (snd stored_09)) 0) = round_double 0.9"
  "access_count (objs (fst (snd stored_09)) 0) = 1"
  by (simp_all add: stored_09_def ShortTermMemory_store_def alloc_def content_id_def clock_at_def
      empty_heap_def stm3_def cleanup_expired_def minute_us_def Let_def)

text \<open>
  The claim as stated fails at its own example. The item of the example is stored with
  the float 0.9 and retrieved once: its importance is then the double sum of the floats
  0.9 and 0.05, which is neither the float 0.95 nor the decimal 0.95 but the next double
  above (\<open>0.9500000000000001\<close>).
\<close>

theorem retrieve_095_counterexample:
  "map_of (item_map (snd (snd stored_09))) ''A'' = Some 0
   \<and> importance (objs (fst (snd stored_09)) 0) = round_double 0.9
   \<and> importance (objs (snd (ShortTermMemory_retrieve 5 ''A'' (fst (snd stored_09))
                              (snd (snd stored_09)))) 0) \<noteq> round_double 0.95
   \<and> importance (objs (snd (ShortTermMemory_retrieve 5 ''A'' (fst (snd stored_09))
                              (snd (snd stored_09)))) 0) \<noteq> 0.95"
proof -
  have v: "importance (objs (snd (ShortTermMemory_retrieve 5 ''A'' (fst (snd stored_09))
                              (snd (snd stored_09)))) 0) = 8556839292003943 / 2 ^ 53"
    unfolding retrieve_importance[OF stored_09_eval(2)] stored_09_eval(3) double_09 double_005
      sum_09_005
    by simp
  have a: "(8556839292003943 :: real) / 2 ^ 53 \<noteq> round_double 0.95"
    unfolding double_095 by simp
  have b: "(8556839292003943 :: real) / 2 ^ 53 \<noteq> 0.95" by simp
  show ?thesis unfolding v using a b stored_09_eval(2,3) by blast
qed

text \<open>
  C4, as amended. For an id that the side table resolves, \<open>retrieve\<close> returns the object,
  adds 1 to its access count, sets its last access to the instant read, and replaces its
  importance \<open>p\<close> by \<open>min(1.0, p + 0.05)\<close>, the sum being the double sum. From the float
  0.9, one call gives \<open>8556839292003943 / 2^53\<close> (\<open>0.9500000000000001\<close>, one unit in the
  last place above the float 0.95), and two calls as well as three give exactly 1.
\<close>

theorem retrieve_access:
  assumes "map_of (item_map s) mid = Some r"
  shows "fst (ShortTermMemory_retrieve now mid h s) = Some r
     \<and> access_count (objs (snd (ShortTermMemory_retrieve now mid h s)) r) = access_count (objs h r) + 1
     \<and> last_accessed (objs (snd (ShortTermMemory_retrieve now mid h s)) r) = now
     \<and> importance (objs (snd (ShortTermMemory_retrieve now mid h s)) r)
          = min 1 (round_double (importance (objs h r) + round_double 0.05))
     \<and> (importance (objs h r) = round_double 0.9 \<longrightarrow>
          importance (objs (snd (ShortTermMemory_retrieve now mid h s)) r) = 8556839292003943 / 2 ^ 53
          \<and> 8556839292003943 / 2 ^ 53 = round_double 0.95 + 1 / 2 ^ 53
          \<and> importance (objs (snd (ShortTermMemory_retrieve now2 mid
                    (snd (ShortTermMemory_retrieve now mid h s)) s)) r) = 1
          \<and> importance (objs (snd (ShortTermMemory_retrieve now3 mid
                 (snd (ShortTermMemory_retrieve now2 mid
                    (snd (ShortTermMemory_retrieve now mid h s)) s)) s)) r) = 1)"
proof -
  have basic: "fst (ShortTermMemory_retrieve now mid h s) = Some r
     \<and> access_count (objs (snd (ShortTermMemory_retrieve now mid h s)) r) = access_count (objs h r) + 1
     \<and> last_accessed (objs (snd (ShortTermMemory_retrieve now mid h s)) r) = now
     \<and> importance (objs (snd (ShortTermMemory_retrieve now mid h s)) r)
          = min 1 (round_double (importance (objs h r) + round_double 0.05))"
    by (simp add: retrieve_hit[OF assms])
  have example: "importance (objs h r) = round_double 0.9 \<longrightarrow>
          importance (objs (snd (ShortTermMemory_retrieve now mid h s)) r) = 8556839292003943 / 2 ^ 53
          \<and> 8556839292003943 / 2 ^ 53 = round_double 0.95 + 1 / 2 ^ 53
          \<and> importance (objs (snd (ShortTermMemory_retrieve now2 mid
                    (snd (ShortTermMemory_retrieve now mid h s)) s)) r) = 1
          \<and> importance (objs (snd (ShortTermMemory_retrieve now3 mid
                 (snd (ShortTermMemory_retrieve now2 mid
                    (snd (ShortTermMemory_retrieve now mid h s)) s)) s)) r) = 1"
  proof
    assume p: "importance (objs h r) = round_double 0.9"
    let ?h1 = "snd (ShortTermMemory_retrieve now mid h s)"
    let ?h2 = "snd (ShortTermMemory_retrieve now2 mid ?h1 s)"
    let ?h3 = "snd (ShortTermMemory_retrieve now3 mid ?h2 s)"
    have one: "importance (objs ?h1 r) = 8556839292003943 / 2 ^ 53"
      unfolding retrieve_importance[OF assms] p double_09 double_005 sum_09_005 by simp
    have ulp: "(8556839292003943 :: real) / 2 ^ 53 = round_double 0.95 + 1 / 2 ^ 53"
      unfolding double_095 by simp
    have "importance (objs ?h2 r) = min 1 (round_double (importance (objs ?h1 r) + round_double 0.05))"
      by (rule retrieve_importance[OF assms])
    then have two: "importance (objs ?h2 r) = 1"
      unfolding one double_005 sum_095_005 by simp
    have "importance (objs ?h3 r) = min 1 (round_double (importance (objs ?h2 r) + round_double 0.05))"
      by (rule retrieve_importance[OF assms])
    then have three: "importance (objs ?h3 r) = 1"
      unfolding two double_005 sum_1_005 by simp
    show "importance (objs ?h1 r) = 8556839292003943 / 2 ^ 53
          \<and> 8556839292003943 / 2 ^ 53 = round_double 0.95 + 1 / 2 ^ 53
          \<and> importance (objs ?h2 r) = 1 \<and> importance (objs ?h3 r) = 1"
      using one ulp two three by simp
  qed
  show ?thesis using basic example by simp
qed

theorem retrieve_access_witness:
  "map_of (item_map (snd (snd stored_09))) ''A'' = Some 0
   \<and> importance (objs (fst (snd stored_09)) 0) = round_double 0.9
   \<and> access_count (objs (snd (ShortTermMemory_retrieve 5 ''A'' (fst (snd stored_09)) (snd (snd stored_09)))) 0) = 2
   \<and> importance (objs (snd (ShortTermMemory_retrieve 5 ''A'' (fst (snd stored_09)) (snd (snd stored_09)))) 0)
       = 8556839292003943 / 2 ^ 53
   \<and> importance (objs (snd (ShortTermMemory_retrieve 7 ''A''
                 (snd (ShortTermMemory_retrieve 6 ''A''
                    (snd (ShortTermMemory_retrieve 5 ''A'' (fst (snd stored_09)) (snd (snd stored_09))))
                    (snd (snd stored_09)))) (snd (snd stored_09)))) 0) = 1"
  using retrieve_access[OF stored_09_eval(2), of 5 "fst (snd stored_09)" 6 7] stored_09_eval
  by simp

section \<open>The orchestrator: where a stored item goes\<close>

lemma fresh_system_init:
  "LayeredMemorySystem_init 20 30 [] empty_heap = Inr (empty_heap, fresh_system)"
  by (simp add: LayeredMemorySystem_init_def ShortTermMemory_init_def LongTermMemory_init_def
      fresh_system_def)






section \<open>The division in the searches\<close>

lemma double_1: "round_double 1 = 1"
  using round_double_eq[of 1 0 4503599627370496] by (simp add: power_int_minus)

lemma double_half: "round_double (1 / 2) = 1 / 2"
  using round_double_eq[of "1 / 2" "-1" 4503599627370496] by (simp add: power_int_minus)

lemma float_of_int_1: "float_of_int 1 = Inr 1"
  by (simp add: float_of_int_def double_1)

lemma float_of_int_cases:
  "float_of_int n = Inl OverflowError \<or> float_of_int n = Inr (round_double (of_int n))"
  by (simp add: float_of_int_def)

lemma relevance_ok:
  "split cont \<noteq> [] \<Longrightarrow>
     relevance cont q = Inr (round_double (real (count (lower cont) q) / real (length (split cont))))"
  by (simp add: relevance_def)

lemma relevance_fail: "split cont = [] \<Longrightarrow> relevance cont q = Inl ZeroDivisionError"
  by (simp add: relevance_def)

lemma stm_matches_ok:
  "(\<forall>r \<in> set rs. contains (lower (content (objs h r))) q \<longrightarrow> split (content (objs h r)) \<noteq> [])
   \<Longrightarrow> stm_matches q h rs =
        Inr (map (\<lambda>r. (r, round_double
                             (round_double (real (count (lower (content (objs h r))) q)
                                              / real (length (split (content (objs h r)))))
                              * importance (objs h r))))
               (filter (\<lambda>r. contains (lower (content (objs h r))) q) rs))"
  by (induction rs) (auto simp: Let_def relevance_ok)

lemma stm_matches_fail:
  "\<exists>r \<in> set rs. contains (lower (content (objs h r))) q \<and> split (content (objs h r)) = []
   \<Longrightarrow> stm_matches q h rs = Inl ZeroDivisionError"
proof (induction rs)
  case Nil
  then show ?case by simp
next
  case (Cons r rs)
  show ?case
  proof (cases "contains (lower (content (objs h r))) q")
    case True
    show ?thesis
    proof (cases "split (content (objs h r)) = []")
      case True
      with \<open>contains (lower (content (objs h r))) q\<close> show ?thesis
        by (simp add: Let_def relevance_fail)
    next
      case False
      with Cons have "stm_matches q h rs = Inl ZeroDivisionError" by auto
      with True False show ?thesis by (simp add: Let_def relevance_ok)
    qed
  next
    case False
    with Cons have "stm_matches q h rs = Inl ZeroDivisionError" by auto
    with False show ?thesis by (simp add: Let_def)
  qed
qed

text \<open>
  The scoring of the long-term search converts the access count to a float; when that
  conversion succeeds for every item, the loop returns the scores.
\<close>

lemma ltm_scored_ok:
  "(\<forall>r \<in> set rs. contains (lower (content (objs h r))) q \<longrightarrow> split (content (objs h r)) \<noteq> [])
   \<Longrightarrow> (\<forall>r \<in> set rs. float_of_int (access_count (objs h r)) \<noteq> Inl OverflowError)
   \<Longrightarrow> ltm_scored q h rs =
        Inr (map (\<lambda>r. (r, round_double
                             (round_double
                                (round_double (real (count (lower (content (objs h r))) q)
                                                 / real (length (split (content (objs h r)))))
                                 * importance (objs h r))
                              * round_double (1 + round_double
                                  (round_double (of_int (access_count (objs h r)))
                                   * round_double 0.1)))))
               (filter (\<lambda>r. contains (lower (content (objs h r))) q) rs))"
proof (induction rs)
  case Nil
  then show ?case by simp
next
  case (Cons r rs)
  have ih: "ltm_scored q h rs =
        Inr (map (\<lambda>r. (r, round_double
                             (round_double
                                (round_double (real (count (lower (content (objs h r))) q)
                                                 / real (length (split (content (objs h r)))))
                                 * importance (objs h r))
                              * round_double (1 + round_double
                                  (round_double (of_int (access_count (objs h r)))
                                   * round_double 0.1)))))
               (filter (\<lambda>r. contains (lower (content (objs h r))) q) rs))"
    using Cons by simp
  have f: "float_of_int (access_count (objs h r)) = Inr (round_double (of_int (access_count (objs h r))))"
    using Cons.prems(2) float_of_int_cases[of "access_count (objs h r)"] by simp
  show ?case
  proof (cases "contains (lower (content (objs h r))) q")
    case True
    then have "split (content (objs h r)) \<noteq> []" using Cons.prems(1) by simp
    then show ?thesis using True ih f by (simp add: Let_def relevance_ok)
  next
    case False
    then show ?thesis using ih by (simp add: Let_def)
  qed
qed

lemma ltm_scored_no_zero_division:
  "(\<forall>r \<in> set rs. contains (lower (content (objs h r))) q \<longrightarrow> split (content (objs h r)) \<noteq> [])
   \<Longrightarrow> ltm_scored q h rs \<noteq> Inl ZeroDivisionError"
proof (induction rs)
  case Nil
  then show ?case by simp
next
  case (Cons r rs)
  have ih: "ltm_scored q h rs \<noteq> Inl ZeroDivisionError" using Cons by simp
  show ?case
  proof (cases "contains (lower (content (objs h r))) q")
    case True
    then have s: "split (content (objs h r)) \<noteq> []" using Cons.prems by simp
    from float_of_int_cases[of "access_count (objs h r)"] show ?thesis
    proof
      assume "float_of_int (access_count (objs h r)) = Inl OverflowError"
      then show ?thesis using True s by (simp add: Let_def relevance_ok)
    next
      assume "float_of_int (access_count (objs h r)) = Inr (round_double (of_int (access_count (objs h r))))"
      then show ?thesis using True s ih
        by (cases "ltm_scored q h rs") (simp_all add: Let_def relevance_ok)
    qed
  next
    case False
    then show ?thesis using ih by (simp add: Let_def)
  qed
qed

text \<open>
  The scores are the doubles of the code also where the rounding decides the order of
  the results: the relevance 3/5 times the importance 0.25 is below the relevance 1/5
  times the importance 0.75 (\<open>0.15 < 0.15000000000000002\<close>, the second product being
  a tie that rounds to the even neighbour), though the two products are equal over the
  reals.
\<close>

lemma double_06: "round_double (3 / 5) = 5404319552844595 / 2 ^ 53"
  using round_double_eq[of "3 / 5" "-1" 5404319552844595] by (simp add: power_int_minus)

lemma double_02: "round_double (1 / 5) = 7205759403792794 / 2 ^ 55"
  using round_double_eq[of "1 / 5" "-3" 7205759403792794] by (simp add: power_int_minus)

lemma product_06_025: "round_double (5404319552844595 / 2 ^ 53 * (1 / 4)) = 5404319552844595 / 2 ^ 55"
  using round_double_eq[of "5404319552844595 / 2 ^ 53 * (1 / 4)" "-3" 5404319552844595]
  by (simp add: power_int_minus)

lemma product_02_075: "round_double (7205759403792794 / 2 ^ 55 * (3 / 4)) = 5404319552844596 / 2 ^ 55"
proof -
  have u: "ulp_exponent (7205759403792794 / 2 ^ 55 * (3 / 4)) = - 55"
    using ulp_exponent_eq[of "7205759403792794 / 2 ^ 55 * (3 / 4)" "-3"] by (simp add: power_int_minus)
  have q: "(7205759403792794 / 2 ^ 55 * (3 / 4)) / 2 powi (- 55) = of_int 5404319552844595 + (1 / 2 :: real)"
    by (simp add: power_int_minus)
  have nz: "(7205759403792794 / 2 ^ 55 * (3 / 4) :: real) \<noteq> 0" by simp
  show ?thesis
    unfolding round_double_def u q round_half_even_tie using nz by (simp add: power_int_minus)
qed

lemma scores_rounded:
  "round_double (round_double (3 / 5) * (1 / 4)) < round_double (round_double (1 / 5) * (3 / 4))"
  "(3 / 5 :: real) * (1 / 4) = 1 / 5 * (3 / 4)"
proof -
  have "(5404319552844595 :: real) / 2 ^ 55 < 5404319552844596 / 2 ^ 55" by simp
  then show "round_double (round_double (3 / 5) * (1 / 4)) < round_double (round_double (1 / 5) * (3 / 4))"
    unfolding double_06 double_02 product_06_025 product_02_075 .
  show "(3 / 5 :: real) * (1 / 4) = 1 / 5 * (3 / 4)" by simp
qed

lemma map_filter_map_of_subset:
  "set (List.map_filter (map_of al) ks) \<subseteq> snd ` set al"
proof
  fix r assume "r \<in> set (List.map_filter (map_of al) ks)"
  then obtain k where "map_of al k = Some r" by (auto simp: List.map_filter_def)
  then have "(k, r) \<in> set al" by (rule map_of_SomeD)
  then show "r \<in> snd ` set al" by force
qed

lemma search_items_subset:
  "set (search_items set_order min_imp h l cands) \<subseteq> snd ` set (index l)"
  using map_filter_map_of_subset[of "index l" "set_order cands"]
  by (auto simp: search_items_def)

lemma LongTermMemory_search_no_zero_division:
  assumes "\<forall>r \<in> snd ` set (index l).
             contains (lower (content (objs h r))) (lower q) \<longrightarrow> split (content (objs h r)) \<noteq> []"
  shows "LongTermMemory_search set_order (Some q) tgs mtype min_imp top_k h l \<noteq> Inl ZeroDivisionError"
proof (cases "q = []")
  case True
  then show ?thesis by (simp add: LongTermMemory_search_def Let_def)
next
  case False
  define kept where "kept = search_items set_order min_imp h l (search_candidates tgs mtype l)"
  have "\<forall>r \<in> set kept.
          contains (lower (content (objs h r))) (lower q) \<longrightarrow> split (content (objs h r)) \<noteq> []"
    using assms search_items_subset[of set_order min_imp h l "search_candidates tgs mtype l"]
    unfolding kept_def by blast
  from ltm_scored_no_zero_division[OF this]
  have "ltm_scored (lower q) h kept \<noteq> Inl ZeroDivisionError" .
  then show ?thesis using False
    by (cases "ltm_scored (lower q) h kept")
       (simp_all add: LongTermMemory_search_def Let_def kept_def[symmetric])
qed

lemma LongTermMemory_search_ok:
  assumes "\<forall>r \<in> snd ` set (index l).
             contains (lower (content (objs h r))) (lower q) \<longrightarrow> split (content (objs h r)) \<noteq> []"
    and "\<forall>r \<in> snd ` set (index l). float_of_int (access_count (objs h r)) \<noteq> Inl OverflowError"
  shows "\<exists>res. LongTermMemory_search set_order (Some q) tgs mtype min_imp top_k h l = Inr res"
proof (cases "q = []")
  case True
  then show ?thesis by (simp add: LongTermMemory_search_def Let_def)
next
  case False
  define kept where "kept = search_items set_order min_imp h l (search_candidates tgs mtype l)"
  have sub: "set kept \<subseteq> snd ` set (index l)"
    using search_items_subset[of set_order min_imp h l "search_candidates tgs mtype l"]
    unfolding kept_def .
  have p1: "\<forall>r \<in> set kept.
          contains (lower (content (objs h r))) (lower q) \<longrightarrow> split (content (objs h r)) \<noteq> []"
    using assms(1) sub by blast
  have p2: "\<forall>r \<in> set kept. float_of_int (access_count (objs h r)) \<noteq> Inl OverflowError"
    using assms(2) sub by blast
  from ltm_scored_ok[OF p1 p2] obtain sc where "ltm_scored (lower q) h kept = Inr sc" by blast
  then show ?thesis using False
    by (simp add: LongTermMemory_search_def Let_def kept_def[symmetric])
qed

lemma LongTermMemory_search_no_query:
  "\<exists>res. LongTermMemory_search set_order None tgs mtype min_imp top_k h l = Inr res"
  by (simp add: LongTermMemory_search_def Let_def)

lemma LongTermMemory_search_empty_query:
  "\<exists>res. LongTermMemory_search set_order (Some '''') tgs mtype min_imp top_k h l = Inr res"
  by (simp add: LongTermMemory_search_def Let_def)

lemma stored_empty_eval:
  "items (snd (snd stored_empty)) = [0]" "content (objs (fst (snd stored_empty)) 0) = ''''"
  by (simp_all add: stored_empty_def ShortTermMemory_store_def alloc_def content_id_def clock_at_def
      empty_heap_def stm3_def cleanup_expired_def deque_append_def Let_def)

lemma stored_blank_eval:
  "index (long_term (snd (snd stored_blank))) = [('' '', 0)]"
  "content (objs (fst (snd stored_blank)) 0) = '' ''"
  "importance (objs (fst (snd stored_blank)) 0) = 1 / 2"
  by (simp_all add: stored_blank_def LayeredMemorySystem_store_def ShortTermMemory_store_def
      LongTermMemory_store_def alloc_def content_id_def clock_at_def
      empty_heap_def fresh_system_def cleanup_expired_def deque_append_def Let_def)

lemma stored_nbsp_eval:
  "items (snd (snd stored_nbsp)) = [0]" "content (objs (fst (snd stored_nbsp)) 0) = [CHR 0xA0]"
  by (simp_all add: stored_nbsp_def ShortTermMemory_store_def alloc_def content_id_def clock_at_def
      empty_heap_def stm3_def cleanup_expired_def deque_append_def Let_def)

lemma blank_facts:
  "lower '' '' = '' ''" "split '' '' = []" "contains '' '' '' ''" "count '' '' '' '' = 1"
  "lower '''' = ''''" "split '''' = []" "contains '''' ''''" "count '''' '''' = 1"
  "lower [CHR 0xA0] = [CHR 0xA0]" "split [CHR 0xA0] = []" "contains [CHR 0xA0] [CHR 0xA0]"
  by (simp_all add: lower_def lower_char_def split_def is_space_def count_def)

lemma ShortTermMemory_search_empty:
  "ShortTermMemory_search '''' 5 (fst (snd stored_empty)) (snd (snd stored_empty)) = Inl ZeroDivisionError"
proof -
  have "stm_matches '''' (fst (snd stored_empty)) [0] = Inl ZeroDivisionError"
    by (rule stm_matches_fail) (simp add: stored_empty_eval blank_facts)
  then show ?thesis by (simp add: ShortTermMemory_search_def stored_empty_eval blank_facts)
qed

lemma ShortTermMemory_search_nbsp:
  "ShortTermMemory_search [CHR 0xA0] 5 (fst (snd stored_nbsp)) (snd (snd stored_nbsp)) = Inl ZeroDivisionError"
proof -
  have "stm_matches [CHR 0xA0] (fst (snd stored_nbsp)) [0] = Inl ZeroDivisionError"
    by (rule stm_matches_fail) (simp add: stored_nbsp_eval blank_facts)
  then show ?thesis by (simp add: ShortTermMemory_search_def stored_nbsp_eval blank_facts)
qed

lemma LongTermMemory_search_blank:
  "LongTermMemory_search (\<lambda>ks. ks) (Some '' '') None None 0 10 (fst (snd stored_blank))
      (long_term (snd (snd stored_blank))) = Inl ZeroDivisionError"
  by (simp add: LongTermMemory_search_def search_items_def search_candidates_def
      List.map_filter_def stored_blank_eval blank_facts relevance_fail Let_def)

text \<open>
  C10. Both searches divide the number of occurrences of the lowercased query in the
  lowercased content by the number of words of the content, a division of two ints that
  raises ZeroDivisionError for no word. When every item whose lowercased content
  contains the lowercased query has at least one word, no division is by zero: the
  working memory's search returns a list, the score of each match being the double
  quotient times the importance; the long-term search does not raise
  ZeroDivisionError, and returns a list, the score of each match being that product
  times \<open>1 + access_count * 0.1\<close>, when moreover every access count converts to a float.
  The condition is needed: when a matching item of the ring buffer has no word, the
  working memory's search raises ZeroDivisionError. The empty content contains the
  empty query and has no word, and the working memory's search raises on it, as it does
  on a content and a query that are a no-break space; the long-term search, which skips
  the scoring for an absent or empty query and then returns, raises on a content and a
  query that are a single space.
\<close>

theorem search_division_safe:
  "((\<forall>r \<in> set (items s). contains (lower (content (objs h r))) (lower query)
          \<longrightarrow> length (split (content (objs h r))) \<noteq> 0)
      \<longrightarrow> (\<exists>res. ShortTermMemory_search query top_k h s = Inr res)
          \<and> stm_matches (lower query) h (items s) =
              Inr (map (\<lambda>r. (r, round_double
                                   (round_double (real (count (lower (content (objs h r))) (lower query))
                                                    / real (length (split (content (objs h r)))))
                                    * importance (objs h r))))
                     (filter (\<lambda>r. contains (lower (content (objs h r))) (lower query)) (items s))))
   \<and> ((\<exists>r \<in> set (items s). contains (lower (content (objs h r))) (lower query)
          \<and> length (split (content (objs h r))) = 0)
      \<longrightarrow> ShortTermMemory_search query top_k h s = Inl ZeroDivisionError)
   \<and> ((\<forall>r \<in> snd ` set (index l). contains (lower (content (objs h r))) (lower query)
          \<longrightarrow> length (split (content (objs h r))) \<noteq> 0)
      \<longrightarrow> LongTermMemory_search set_order (Some query) tgs mtype min_imp top_k h l
            \<noteq> Inl ZeroDivisionError
          \<and> ((\<forall>r \<in> snd ` set (index l). float_of_int (access_count (objs h r)) \<noteq> Inl OverflowError)
             \<longrightarrow> (\<exists>res. LongTermMemory_search set_order (Some query) tgs mtype min_imp top_k h l = Inr res)
                 \<and> ltm_scored (lower query) h
                      (search_items set_order min_imp h l (search_candidates tgs mtype l)) =
                     Inr (map (\<lambda>r. (r, round_double
                             (round_double
                                (round_double (real (count (lower (content (objs h r))) (lower query))
                                                 / real (length (split (content (objs h r)))))
                                 * importance (objs h r))
                              * round_double (1 + round_double
                                  (round_double (of_int (access_count (objs h r)))
                                   * round_double 0.1)))))
                       (filter (\<lambda>r. contains (lower (content (objs h r))) (lower query))
                          (search_items set_order min_imp h l (search_candidates tgs mtype l))))))
   \<and> (\<exists>res. LongTermMemory_search set_order None tgs mtype min_imp top_k h l = Inr res)
   \<and> (\<exists>res. LongTermMemory_search set_order (Some '''') tgs mtype min_imp top_k h l = Inr res)
   \<and> contains (lower '''') (lower '''') \<and> length (split '''') = 0
   \<and> ShortTermMemory_search '''' 5 (fst (snd stored_empty)) (snd (snd stored_empty))
        = Inl ZeroDivisionError
   \<and> ShortTermMemory_search [CHR 0xA0] 5 (fst (snd stored_nbsp)) (snd (snd stored_nbsp))
        = Inl ZeroDivisionError
   \<and> LongTermMemory_search (\<lambda>ks. ks) (Some '' '') None None 0 10 (fst (snd stored_blank))
        (long_term (snd (snd stored_blank))) = Inl ZeroDivisionError"
proof -
  have a: "(\<forall>r \<in> set (items s). contains (lower (content (objs h r))) (lower query)
          \<longrightarrow> length (split (content (objs h r))) \<noteq> 0)
      \<longrightarrow> (\<exists>res. ShortTermMemory_search query top_k h s = Inr res)
          \<and> stm_matches (lower query) h (items s) =
              Inr (map (\<lambda>r. (r, round_double
                                   (round_double (real (count (lower (content (objs h r))) (lower query))
                                                    / real (length (split (content (objs h r)))))
                                    * importance (objs h r))))
                     (filter (\<lambda>r. contains (lower (content (objs h r))) (lower query)) (items s)))"
  proof
    assume "\<forall>r \<in> set (items s). contains (lower (content (objs h r))) (lower query)
          \<longrightarrow> length (split (content (objs h r))) \<noteq> 0"
    then have "\<forall>r \<in> set (items s). contains (lower (content (objs h r))) (lower query)
          \<longrightarrow> split (content (objs h r)) \<noteq> []" by simp
    from stm_matches_ok[OF this] show "(\<exists>res. ShortTermMemory_search query top_k h s = Inr res)
          \<and> stm_matches (lower query) h (items s) =
              Inr (map (\<lambda>r. (r, round_double
                                   (round_double (real (count (lower (content (objs h r))) (lower query))
                                                    / real (length (split (content (objs h r)))))
                                    * importance (objs h r))))
                     (filter (\<lambda>r. contains (lower (content (objs h r))) (lower query)) (items s)))"
      by (simp add: ShortTermMemory_search_def)
  qed
  have a': "(\<exists>r \<in> set (items s). contains (lower (content (objs h r))) (lower query)
          \<and> length (split (content (objs h r))) = 0)
      \<longrightarrow> ShortTermMemory_search query top_k h s = Inl ZeroDivisionError"
  proof
    assume "\<exists>r \<in> set (items s). contains (lower (content (objs h r))) (lower query)
          \<and> length (split (content (objs h r))) = 0"
    then have "\<exists>r \<in> set (items s). contains (lower (content (objs h r))) (lower query)
          \<and> split (content (objs h r)) = []" by simp
    from stm_matches_fail[OF this] show "ShortTermMemory_search query top_k h s = Inl ZeroDivisionError"
      by (simp add: ShortTermMemory_search_def)
  qed
  have b: "(\<forall>r \<in> snd ` set (index l). contains (lower (content (objs h r))) (lower query)
          \<longrightarrow> length (split (content (objs h r))) \<noteq> 0)
      \<longrightarrow> LongTermMemory_search set_order (Some query) tgs mtype min_imp top_k h l
            \<noteq> Inl ZeroDivisionError
          \<and> ((\<forall>r \<in> snd ` set (index l). float_of_int (access_count (objs h r)) \<noteq> Inl OverflowError)
             \<longrightarrow> (\<exists>res. LongTermMemory_search set_order (Some query) tgs mtype min_imp top_k h l = Inr res)
                 \<and> ltm_scored (lower query) h
                      (search_items set_order min_imp h l (search_candidates tgs mtype l)) =
                     Inr (map (\<lambda>r. (r, round_double
                             (round_double
                                (round_double (real (count (lower (content (objs h r))) (lower query))
                                                 / real (length (split (content (objs h r)))))
                                 * importance (objs h r))
                              * round_double (1 + round_double
                                  (round_double (of_int (access_count (objs h r)))
                                   * round_double 0.1)))))
                       (filter (\<lambda>r. contains (lower (content (objs h r))) (lower query))
                          (search_items set_order min_imp h l (search_candidates tgs mtype l)))))"
  proof
    assume "\<forall>r \<in> snd ` set (index l). contains (lower (content (objs h r))) (lower query)
          \<longrightarrow> length (split (content (objs h r))) \<noteq> 0"
    then have p: "\<forall>r \<in> snd ` set (index l). contains (lower (content (objs h r))) (lower query)
          \<longrightarrow> split (content (objs h r)) \<noteq> []" by simp
    have sub: "set (search_items set_order min_imp h l (search_candidates tgs mtype l))
                 \<subseteq> snd ` set (index l)"
      by (rule search_items_subset)
    have p1: "\<forall>r \<in> set (search_items set_order min_imp h l (search_candidates tgs mtype l)).
          contains (lower (content (objs h r))) (lower query) \<longrightarrow> split (content (objs h r)) \<noteq> []"
      using p sub by blast
    have c: "(\<forall>r \<in> snd ` set (index l). float_of_int (access_count (objs h r)) \<noteq> Inl OverflowError)
             \<longrightarrow> (\<exists>res. LongTermMemory_search set_order (Some query) tgs mtype min_imp top_k h l = Inr res)
                 \<and> ltm_scored (lower query) h
                      (search_items set_order min_imp h l (search_candidates tgs mtype l)) =
                     Inr (map (\<lambda>r. (r, round_double
                             (round_double
                                (round_double (real (count (lower (content (objs h r))) (lower query))
                                                 / real (length (split (content (objs h r)))))
                                 * importance (objs h r))
                              * round_double (1 + round_double
                                  (round_double (of_int (access_count (objs h r)))
                                   * round_double 0.1)))))
                       (filter (\<lambda>r. contains (lower (content (objs h r))) (lower query))
                          (search_items set_order min_imp h l (search_candidates tgs mtype l))))"
    proof
      assume o: "\<forall>r \<in> snd ` set (index l). float_of_int (access_count (objs h r)) \<noteq> Inl OverflowError"
      then have p2: "\<forall>r \<in> set (search_items set_order min_imp h l (search_candidates tgs mtype l)).
          float_of_int (access_count (objs h r)) \<noteq> Inl OverflowError"
        using sub by blast
      from ltm_scored_ok[OF p1 p2] LongTermMemory_search_ok[OF p o]
      show "(\<exists>res. LongTermMemory_search set_order (Some query) tgs mtype min_imp top_k h l = Inr res)
                 \<and> ltm_scored (lower query) h
                      (search_items set_order min_imp h l (search_candidates tgs mtype l)) =
                     Inr (map (\<lambda>r. (r, round_double
                             (round_double
                                (round_double (real (count (lower (content (objs h r))) (lower query))
                                                 / real (length (split (content (objs h r)))))
                                 * importance (objs h r))
                              * round_double (1 + round_double
                                  (round_double (of_int (access_count (objs h r)))
                                   * round_double 0.1)))))
                       (filter (\<lambda>r. contains (lower (content (objs h r))) (lower query))
                          (search_items set_order min_imp h l (search_candidates tgs mtype l))))"
        by blast
    qed
    from LongTermMemory_search_no_zero_division[OF p] c
    show "LongTermMemory_search set_order (Some query) tgs mtype min_imp top_k h l
            \<noteq> Inl ZeroDivisionError
          \<and> ((\<forall>r \<in> snd ` set (index l). float_of_int (access_count (objs h r)) \<noteq> Inl OverflowError)
             \<longrightarrow> (\<exists>res. LongTermMemory_search set_order (Some query) tgs mtype min_imp top_k h l = Inr res)
                 \<and> ltm_scored (lower query) h
                      (search_items set_order min_imp h l (search_candidates tgs mtype l)) =
                     Inr (map (\<lambda>r. (r, round_double
                             (round_double
                                (round_double (real (count (lower (content (objs h r))) (lower query))
                                                 / real (length (split (content (objs h r)))))
                                 * importance (objs h r))
                              * round_double (1 + round_double
                                  (round_double (of_int (access_count (objs h r)))
                                   * round_double 0.1)))))
                       (filter (\<lambda>r. contains (lower (content (objs h r))) (lower query))
                          (search_items set_order min_imp h l (search_candidates tgs mtype l)))))"
      by blast
  qed
  have c: "contains (lower '''') (lower '''') \<and> length (split '''') = 0" by (simp add: blank_facts)
  show ?thesis
    using a a' b c LongTermMemory_search_no_query LongTermMemory_search_empty_query
      ShortTermMemory_search_empty ShortTermMemory_search_nbsp LongTermMemory_search_blank
    by blast
qed

lemma stored_two_eval:
  "items (snd (snd stored_two)) = [0]" "content (objs (fst (snd stored_two)) 0) = ''two words''"
  "importance (objs (fst (snd stored_two)) 0) = 1 / 2"
  by (simp_all add: stored_two_def ShortTermMemory_store_def alloc_def content_id_def clock_at_def
      empty_heap_def stm3_def cleanup_expired_def deque_append_def Let_def)

lemma two_words_facts:
  "split ''two words'' = [''two'', ''words'']" "lower ''two words'' = ''two words''"
  "lower ''wo'' = ''wo''" "contains ''two words'' ''wo''" "count ''two words'' ''wo'' = 2"
  by (simp_all add: lower_def lower_char_def split_def is_space_def count_def)

lemma stored_one_eval:
  "index (long_term (snd (snd stored_one))) = [(''One'', 0)]"
  "content (objs (fst (snd stored_one)) 0) = ''One''"
  "importance (objs (fst (snd stored_one)) 0) = 1 / 2"
  "access_count (objs (fst (snd stored_one)) 0) = 1"
  by (simp_all add: stored_one_def LayeredMemorySystem_store_def ShortTermMemory_store_def
      LongTermMemory_store_def alloc_def content_id_def clock_at_def
      empty_heap_def fresh_system_def cleanup_expired_def deque_append_def Let_def)

lemma lower_one: "lower ''One'' = ''one''" "lower ''ONE'' = ''one''"
  by code_simp+

lemma one_facts:
  "split ''One'' = [''One'']" "lower ''One'' = ''one''" "lower ''ONE'' = ''one''"
  "contains ''one'' ''one''" "count ''one'' ''one'' = 1"
  by (simp_all add: lower_one split_def is_space_def count_def)

text \<open>
  In the working memory of the example the item ``two words'' matches the query ``wo''
  twice and has two words, and its importance is one half. In the long-term memory of
  the example the item ``One'' matches the query ``ONE'' and has one word. In the
  working memory that holds the empty content, the empty query matches an item that has
  no word.
\<close>

theorem search_division_safe_witness:
  "ShortTermMemory_search ''wo'' 5 (fst (snd stored_two)) (snd (snd stored_two)) = Inr [0]
   \<and> stm_matches (lower ''wo'') (fst (snd stored_two)) (items (snd (snd stored_two))) = Inr [(0, 1 / 2)]
   \<and> ShortTermMemory_search '''' 3 (fst (snd stored_empty)) (snd (snd stored_empty))
       = Inl ZeroDivisionError
   \<and> LongTermMemory_search (\<lambda>ks. ks) (Some ''ONE'') None None 0 10 (fst (snd stored_one))
        (long_term (snd (snd stored_one))) = Inr [0]"
proof -
  have pre: "\<forall>r \<in> set (items (snd (snd stored_two))).
        contains (lower (content (objs (fst (snd stored_two)) r))) (lower ''wo'')
          \<longrightarrow> length (split (content (objs (fst (snd stored_two)) r))) \<noteq> 0"
    by (simp add: stored_two_eval two_words_facts)
  have m: "stm_matches (lower ''wo'') (fst (snd stored_two)) (items (snd (snd stored_two))) = Inr [(0, 1 / 2)]"
    using search_division_safe[where s = "snd (snd stored_two)" and h = "fst (snd stored_two)"
        and query = "''wo''", THEN conjunct1, THEN mp, OF pre, THEN conjunct2]
    by (simp add: stored_two_eval two_words_facts double_1 double_half)
  then have s1: "ShortTermMemory_search ''wo'' 5 (fst (snd stored_two)) (snd (snd stored_two)) = Inr [0]"
    by (simp add: ShortTermMemory_search_def slice_to_def two_words_facts)
  have bad: "\<exists>r \<in> set (items (snd (snd stored_empty))).
        contains (lower (content (objs (fst (snd stored_empty)) r))) (lower '''')
          \<and> length (split (content (objs (fst (snd stored_empty)) r))) = 0"
    by (simp add: stored_empty_eval blank_facts)
  have s2: "ShortTermMemory_search '''' 3 (fst (snd stored_empty)) (snd (snd stored_empty))
       = Inl ZeroDivisionError"
    using search_division_safe[where s = "snd (snd stored_empty)" and h = "fst (snd stored_empty)"
        and query = "''''" and top_k = 3, THEN conjunct2, THEN conjunct1, THEN mp, OF bad] .
  have pre_l: "\<forall>r \<in> snd ` set (index (long_term (snd (snd stored_one)))).
        contains (lower (content (objs (fst (snd stored_one)) r))) (lower ''ONE'')
          \<longrightarrow> length (split (content (objs (fst (snd stored_one)) r))) \<noteq> 0"
    by (simp add: stored_one_eval one_facts)
  have pre_o: "\<forall>r \<in> snd ` set (index (long_term (snd (snd stored_one)))).
        float_of_int (access_count (objs (fst (snd stored_one)) r)) \<noteq> Inl OverflowError"
    by (simp add: stored_one_eval float_of_int_1)
  have kept: "search_items (\<lambda>ks. ks) 0 (fst (snd stored_one)) (long_term (snd (snd stored_one)))
                (search_candidates None None (long_term (snd (snd stored_one)))) = [0]"
    by (simp add: search_items_def search_candidates_def List.map_filter_def stored_one_eval)
  have "ltm_scored (lower ''ONE'') (fst (snd stored_one))
          (search_items (\<lambda>ks. ks) 0 (fst (snd stored_one)) (long_term (snd (snd stored_one)))
                (search_candidates None None (long_term (snd (snd stored_one)))))
        = Inr (map (\<lambda>r. (r, round_double
                             (round_double
                                (round_double (real (count (lower (content (objs (fst (snd stored_one)) r))) (lower ''ONE''))
                                                 / real (length (split (content (objs (fst (snd stored_one)) r)))))
                                 * importance (objs (fst (snd stored_one)) r))
                              * round_double (1 + round_double
                                  (round_double (of_int (access_count (objs (fst (snd stored_one)) r)))
                                   * round_double 0.1)))))
                       (filter (\<lambda>r. contains (lower (content (objs (fst (snd stored_one)) r))) (lower ''ONE''))
                          (search_items (\<lambda>ks. ks) 0 (fst (snd stored_one)) (long_term (snd (snd stored_one)))
                             (search_candidates None None (long_term (snd (snd stored_one)))))))"
    using search_division_safe[where l = "long_term (snd (snd stored_one))" and h = "fst (snd stored_one)"
        and query = "''ONE''" and set_order = "\<lambda>ks. ks" and tgs = None and mtype = None
        and min_imp = 0,
        THEN conjunct2, THEN conjunct2, THEN conjunct1, THEN mp, OF pre_l,
        THEN conjunct2, THEN mp, OF pre_o, THEN conjunct2] .
  then have "\<exists>sc. ltm_scored ''one'' (fst (snd stored_one)) [0] = Inr [(0, sc)]"
    unfolding kept by (simp add: stored_one_eval one_facts)
  then obtain sc where "ltm_scored ''one'' (fst (snd stored_one)) [0] = Inr [(0, sc)]" by blast
  then have s3: "LongTermMemory_search (\<lambda>ks. ks) (Some ''ONE'') None None 0 10 (fst (snd stored_one))
        (long_term (snd (snd stored_one))) = Inr [0]"
    by (simp add: LongTermMemory_search_def kept one_facts slice_to_def Let_def)
  show ?thesis using s1 m s2 s3 by simp
qed

section \<open>Working memory: the two eviction policies\<close>











section \<open>Long-term memory: pruning\<close>

lemma bucket_update:
  "bucket (AList.update key ids idx) k = (if k = key then ids else bucket idx k)"
  by (simp add: bucket_def update_conv')

lemma bucket_index_discard:
  "bucket (index_discard key mid idx) k = (if k = key then bucket idx k - {mid} else bucket idx k)"
  by (auto simp: index_discard_def bucket_def update_conv' split: option.splits)

lemma bucket_fold_discard:
  "bucket (fold (\<lambda>tag ti. index_discard tag mid ti) ts idx) k =
     (if k \<in> set ts then bucket idx k - {mid} else bucket idx k)"
  by (induction ts arbitrary: idx) (auto simp: bucket_index_discard)

lemma prune_remove_index:
  "map_of (index (prune_remove h k l)) = (map_of (index l))(k := None)"
  by (auto simp: prune_remove_def Let_def delete_conv' split: option.splits)

lemma prune_remove_distinct:
  "distinct (map fst (index l)) \<Longrightarrow> distinct (map fst (index (prune_remove h k l)))"
  by (auto simp: prune_remove_def Let_def distinct_delete split: option.splits)

lemma prune_remove_tag_shrink:
  "bucket (tag_index (prune_remove h k l)) t \<subseteq> bucket (tag_index l) t"
  by (auto simp: prune_remove_def Let_def bucket_fold_discard split: option.splits if_splits)

lemma prune_remove_type_shrink:
  "bucket (type_index (prune_remove h k l)) t \<subseteq> bucket (type_index l) t"
  by (auto simp: prune_remove_def Let_def bucket_index_discard split: option.splits if_splits)

lemma prune_remove_own:
  assumes "map_of (index l) k = Some r"
  shows "\<forall>t \<in> set (tags (objs h r)). k \<notin> bucket (tag_index (prune_remove h k l)) t"
    and "k \<notin> bucket (type_index (prune_remove h k l)) (memory_type (objs h r))"
    and "map_of (files (prune_remove h k l)) k = None"
  using assms
  by (auto simp: prune_remove_def Let_def bucket_fold_discard bucket_index_discard delete_conv')

lemma fold_prune_index:
  "map_of (index (fold (prune_remove h) ks l)) k = (if k \<in> set ks then None else map_of (index l) k)"
  by (induction ks arbitrary: l) (auto simp: prune_remove_index)

lemma fold_prune_tag_shrink:
  "bucket (tag_index (fold (prune_remove h) ks l)) t \<subseteq> bucket (tag_index l) t"
proof (induction ks arbitrary: l)
  case Nil
  then show ?case by simp
next
  case (Cons k ks)
  show ?case using Cons.IH[of "prune_remove h k l"] prune_remove_tag_shrink[of h k l t] by auto
qed

lemma fold_prune_type_shrink:
  "bucket (type_index (fold (prune_remove h) ks l)) t \<subseteq> bucket (type_index l) t"
proof (induction ks arbitrary: l)
  case Nil
  then show ?case by simp
next
  case (Cons k ks)
  show ?case using Cons.IH[of "prune_remove h k l"] prune_remove_type_shrink[of h k l t] by auto
qed

lemma fold_prune_files_other:
  "k \<notin> set ks \<Longrightarrow> map_of (files (fold (prune_remove h) ks l)) k = map_of (files l) k"
proof (induction ks arbitrary: l)
  case Nil
  then show ?case by simp
next
  case (Cons a ks)
  have "map_of (files (prune_remove h a l)) k = map_of (files l) k"
    using Cons.prems by (auto simp: prune_remove_def Let_def delete_conv' split: option.splits)
  then show ?case using Cons by simp
qed

lemma fold_prune_files_shrink:
  "map_of (files l) k = None \<Longrightarrow> map_of (files (fold (prune_remove h) ks l)) k = None"
proof (induction ks arbitrary: l)
  case Nil
  then show ?case by simp
next
  case (Cons a ks)
  have "map_of (files (prune_remove h a l)) k = None"
    using Cons.prems by (auto simp: prune_remove_def Let_def delete_conv' split: option.splits)
  then show ?case using Cons.IH by simp
qed

lemma fold_prune_own:
  assumes "k \<in> set ks" and "distinct ks" and "map_of (index l) k = Some r"
  shows "(\<forall>t \<in> set (tags (objs h r)). k \<notin> bucket (tag_index (fold (prune_remove h) ks l)) t)
       \<and> k \<notin> bucket (type_index (fold (prune_remove h) ks l)) (memory_type (objs h r))
       \<and> map_of (files (fold (prune_remove h) ks l)) k = None"
  using assms
proof (induction ks arbitrary: l)
  case Nil
  then show ?case by simp
next
  case (Cons a ks)
  show ?case
  proof (cases "a = k")
    case True
    note own = prune_remove_own[OF Cons.prems(3), of h]
    have 1: "\<forall>t \<in> set (tags (objs h r)). k \<notin> bucket (tag_index (fold (prune_remove h) ks (prune_remove h k l))) t"
      using own(1) fold_prune_tag_shrink[of h ks "prune_remove h k l"] by blast
    have 2: "k \<notin> bucket (type_index (fold (prune_remove h) ks (prune_remove h k l))) (memory_type (objs h r))"
      using own(2) fold_prune_type_shrink[of h ks "prune_remove h k l"] by blast
    have 3: "map_of (files (fold (prune_remove h) ks (prune_remove h k l))) k = None"
      using own(3) by (rule fold_prune_files_shrink)
    show ?thesis using True 1 2 3 by simp
  next
    case False
    then have "k \<in> set ks" "distinct ks" using Cons.prems by auto
    moreover have "map_of (index (prune_remove h a l)) k = Some r"
      using False Cons.prems(3) by (simp add: prune_remove_index)
    ultimately show ?thesis using Cons.IH[of "prune_remove h a l"] by simp
  qed
qed

lemma to_remove_member:
  assumes "distinct (map fst al)" and "map_of al k = Some r"
  shows "k \<in> set (map fst (filter (\<lambda>(mid, r). P r) al)) \<longleftrightarrow> P r"
proof -
  have mem: "\<And>r'. (k, r') \<in> set al \<longleftrightarrow> r' = r"
    using assms by (metis map_of_is_SomeI map_of_SomeD option.inject)
  then show ?thesis by (auto simp: image_iff)
qed

lemma prune_due_unfold:
  "prune_due min_imp max_age_days now it \<longleftrightarrow>
     round_double (importance it
        * round_double (1 - round_double (decay_rate it
            * round_double (real_of_int ((now - created_at it) div day_us) / 365)))) < min_imp
     \<or> now - created_at it > max_age_days * day_us"
  by (simp add: prune_due_def Let_def)

lemma prune_overflow:
  "\<bar>max_age_days\<bar> > 999999999 \<Longrightarrow> prune min_imp max_age_days now h l = Inl OverflowError"
  by (simp add: prune_def)

lemma prune_returns:
  "\<bar>max_age_days\<bar> \<le> 999999999 \<Longrightarrow> \<exists>n l'. prune min_imp max_age_days now h l = Inr (n, l')"
  by (simp add: prune_def Let_def)

text \<open>
  What a prune that returns does to an indexed item. The item is removed if and only if
  its decayed importance, computed in doubles from the whole days of its age, is below
  the minimum or its age is above \<open>max_age_days\<close> days; an item that stays is
  unchanged. A removed id is afterwards neither in the primary index, nor in the bucket
  of any tag that the removed item carries, nor in the bucket of its type, nor in the
  storage directory. The count returned is the number of items due. An item 400 days
  old is removed under \<open>max_age_days = 365\<close> whatever its importance.
\<close>

lemma prune_removes_indexed:
  assumes "distinct (map fst (index l))"
    and "prune min_imp max_age_days now h l = Inr (n, l')"
    and "map_of (index l) mid = Some r"
  shows "(map_of (index l') mid = None \<longleftrightarrow>
            round_double (importance (objs h r)
               * round_double (1 - round_double (decay_rate (objs h r)
                   * round_double (real_of_int ((now - created_at (objs h r)) div day_us) / 365))))
              < min_imp
            \<or> now - created_at (objs h r) > max_age_days * day_us)
     \<and> (map_of (index l') mid \<noteq> None \<longrightarrow> map_of (index l') mid = Some r)
     \<and> (map_of (index l') mid = None \<longrightarrow>
           (\<forall>t \<in> set (tags (objs h r)). mid \<notin> bucket (tag_index l') t)
           \<and> mid \<notin> bucket (type_index l') (memory_type (objs h r))
           \<and> map_of (files l') mid = None)
     \<and> n = length (filter (\<lambda>(k, r'). prune_due min_imp max_age_days now (objs h r')) (index l))
     \<and> (now - created_at (objs h r) = 400 * day_us \<and> max_age_days = 365
           \<longrightarrow> map_of (index l') mid = None)"
proof -
  let ?due = "\<lambda>(k::string, r'). prune_due min_imp max_age_days now (objs h r')"
  let ?ks = "map fst (filter ?due (index l))"
  have n: "n = length (filter ?due (index l))" and l': "l' = fold (prune_remove h) ?ks l"
    using assms(2) by (auto simp: prune_def Let_def split: if_splits)
  have dks: "distinct ?ks" using assms(1) by (rule distinct_map_filter)
  have mem: "mid \<in> set ?ks \<longleftrightarrow> prune_due min_imp max_age_days now (objs h r)"
    using to_remove_member[OF assms(1) assms(3), of "\<lambda>r'. prune_due min_imp max_age_days now (objs h r')"]
    by simp
  have idx: "map_of (index l') mid = (if mid \<in> set ?ks then None else Some r)"
    unfolding l' fold_prune_index using assms(3) by simp
  have iff: "map_of (index l') mid = None \<longleftrightarrow>
            round_double (importance (objs h r)
               * round_double (1 - round_double (decay_rate (objs h r)
                   * round_double (real_of_int ((now - created_at (objs h r)) div day_us) / 365))))
              < min_imp
            \<or> now - created_at (objs h r) > max_age_days * day_us"
    using idx mem by (simp add: prune_due_unfold)
  have stay: "map_of (index l') mid \<noteq> None \<longrightarrow> map_of (index l') mid = Some r"
    using idx by simp
  have gone: "map_of (index l') mid = None \<longrightarrow>
           (\<forall>t \<in> set (tags (objs h r)). mid \<notin> bucket (tag_index l') t)
           \<and> mid \<notin> bucket (type_index l') (memory_type (objs h r))
           \<and> map_of (files l') mid = None"
  proof
    assume "map_of (index l') mid = None"
    then have "mid \<in> set ?ks" using idx by (simp split: if_splits)
    from fold_prune_own[OF this dks assms(3), of h] show
      "(\<forall>t \<in> set (tags (objs h r)). mid \<notin> bucket (tag_index l') t)
           \<and> mid \<notin> bucket (type_index l') (memory_type (objs h r))
           \<and> map_of (files l') mid = None"
      unfolding l' by simp
  qed
  have old: "now - created_at (objs h r) = 400 * day_us \<and> max_age_days = 365
           \<longrightarrow> map_of (index l') mid = None"
    using iff by (simp add: day_us_def)
  show ?thesis using iff stay gone n old by blast
qed

text \<open>
  The decayed importance is used as it is, also when negative: importance 1 with decay
  rate 1 at 730 days, where it is -1, is below a minimum of 0.
\<close>

lemma double_2: "round_double 2 = 2"
  using round_double_eq[of 2 1 4503599627370496] by (simp add: power_int_minus)

lemma double_minus_1: "round_double (- 1) = - 1"
  using round_double_eq[of "- 1" 0 "- 4503599627370496"] by (simp add: power_int_minus)

lemma prune_due_negative:
  assumes "importance it = 1" and "decay_rate it = 1" and "created_at it = 0"
  shows "prune_due 0 1000 (730 * day_us) it"
  using assms by (simp add: prune_due_def Let_def day_us_def double_2 double_minus_1)

text \<open>
  The decayed importance is the double that the code computes: for importance 0.5 and
  decay rate 0.1 at 2920 days (8 years of 365 days) it is \<open>0.09999999999999998\<close>, below
  the minimum 0.1, where the formula over the reals gives 0.1.
\<close>

lemma double_01: "round_double 0.1 = 3602879701896397 / 2 ^ 55"
  using round_double_eq[of "0.1" "-4" 7205759403792794] by (simp add: power_int_minus)

lemma double_8: "round_double 8 = 8"
  using round_double_eq[of 8 3 4503599627370496] by (simp add: power_int_minus)

lemma product_01_8: "round_double (3602879701896397 / 2 ^ 55 * 8) = 3602879701896397 / 2 ^ 52"
  using round_double_eq[of "3602879701896397 / 2 ^ 55 * 8" "-1" 7205759403792794]
  by (simp add: power_int_minus)

lemma difference_1_08: "round_double (1 - 3602879701896397 / 2 ^ 52) = 900719925474099 / 2 ^ 52"
  using round_double_eq[of "1 - 3602879701896397 / 2 ^ 52" "-3" 7205759403792792]
  by (simp add: power_int_minus)

lemma product_05_02: "round_double (1 / 2 * (900719925474099 / 2 ^ 52)) = 900719925474099 / 2 ^ 53"
  using round_double_eq[of "1 / 2 * (900719925474099 / 2 ^ 52)" "-4" 7205759403792792]
  by (simp add: power_int_minus)

lemma prune_due_rounded:
  assumes "importance it = 1 / 2" and "decay_rate it = round_double 0.1" and "created_at it = 0"
  shows "prune_due (round_double 0.1) 3000 (2920 * day_us) it"
    and "\<not> importance it * (1 - 0.1 * (real_of_int ((2920 * day_us - created_at it) div day_us) / 365))
            < (0.1 :: real)"
proof -
  have days: "real_of_int ((2920 * day_us - 0) div day_us) / 365 = 8" by (simp add: day_us_def)
  have "(900719925474099 :: real) / 2 ^ 53 < 3602879701896397 / 2 ^ 55" by simp
  then show "prune_due (round_double 0.1) 3000 (2920 * day_us) it"
    unfolding prune_due_unfold assms days double_01 double_8 product_01_8 difference_1_08
      product_05_02
    by simp
  show "\<not> importance it * (1 - 0.1 * (real_of_int ((2920 * day_us - created_at it) div day_us) / 365))
            < (0.1 :: real)"
    unfolding assms days by simp
qed

lemma stored_lt_eval:
  "index (long_term (snd (snd stored_lt))) = [(''A'', 0)]"
  "tag_index (long_term (snd (snd stored_lt))) = [(''a'', {''A''})]"
  "type_index (long_term (snd (snd stored_lt))) = [(''semantic'', {''A''})]"
  "files (long_term (snd (snd stored_lt))) = [(''A'', Some (objs (fst (snd stored_lt)) 0))]"
  "objs (fst (snd stored_lt)) 0 = new_item content_id (clock_at 0) ''A'' ''semantic'' 0.9 (Some [''a'']) None"
  "items (short_term (snd (snd stored_lt))) = [0]"
  "next_ref (fst (snd stored_lt)) = 1"
  by (simp_all add: stored_lt_def LayeredMemorySystem_store_def ShortTermMemory_store_def
      LongTermMemory_store_def save_memory_def index_add_def always_ok_def new_item_def
      alloc_def content_id_def clock_at_def
      empty_heap_def fresh_system_def cleanup_expired_def deque_append_def Let_def)

lemma stored_k2_eval:
  "index (long_term (snd (snd stored_k2))) = [(''k'', 1)]"
  "tag_index (long_term (snd (snd stored_k2))) = [(''a'', {''k''}), (''b'', {''k''})]"
  "type_index (long_term (snd (snd stored_k2))) = [(''episodic'', {''k''}), (''semantic'', {''k''})]"
  "files (long_term (snd (snd stored_k2))) = [(''k'', Some (objs (fst (snd stored_k2)) 1))]"
  "tags (objs (fst (snd stored_k2)) 1) = [''b'']"
  "memory_type (objs (fst (snd stored_k2)) 1) = ''semantic''"
  "created_at (objs (fst (snd stored_k2)) 1) = 0"
  by (simp_all add: stored_k2_def stored_k1_def LayeredMemorySystem_store_def
      ShortTermMemory_store_def LongTermMemory_store_def save_memory_def index_add_def always_ok_def
      alloc_def content_id_def clock_at_def
      empty_heap_def fresh_system_def cleanup_expired_def deque_append_def minute_us_def Let_def)

text \<open>
  C7. The removal of \<open>prune\<close> does not reach every bucket of the secondary indices.
  In the system of the example the id ``k'' was stored twice, first as an ``episodic''
  item tagged ``a'' and then as a ``semantic'' item tagged ``b'': it resolves to the
  second object and is listed under both tags and both types. A prune 400 days later
  removes the item by its age and returns the count 1: the primary index and the
  storage directory are empty, but the bucket of the tag ``a'' and the bucket of the
  type ``episodic'' still hold the id.
\<close>

theorem prune_leaves_stale_buckets:
  "index (long_term (snd (snd stored_k2))) = [(''k'', 1)]
   \<and> tags (objs (fst (snd stored_k2)) 1) = [''b'']
   \<and> memory_type (objs (fst (snd stored_k2)) 1) = ''semantic''
   \<and> tag_index (long_term (snd (snd stored_k2))) = [(''a'', {''k''}), (''b'', {''k''})]
   \<and> type_index (long_term (snd (snd stored_k2))) = [(''episodic'', {''k''}), (''semantic'', {''k''})]
   \<and> prune (round_double 0.1) 365 (400 * day_us) (fst (snd stored_k2)) (long_term (snd (snd stored_k2)))
       = Inr (1, \<lparr>index = [], tag_index = [(''a'', {''k''}), (''b'', {})],
                   type_index = [(''episodic'', {''k''}), (''semantic'', {})], files = []\<rparr>)"
proof -
  have "fold (prune_remove (fst (snd stored_k2))) [''k''] (long_term (snd (snd stored_k2)))
          = \<lparr>index = [], tag_index = [(''a'', {''k''}), (''b'', {})],
             type_index = [(''episodic'', {''k''}), (''semantic'', {})], files = []\<rparr>"
    by (rule LongTermMemory.equality)
       (simp_all add: prune_remove_def index_discard_def stored_k2_eval
          stored_k2_eval[unfolded One_nat_def] Let_def)
  then show ?thesis
    by (simp add: prune_def prune_due_def stored_k2_eval stored_k2_eval[unfolded One_nat_def]
          day_us_def Let_def)
qed

section \<open>Long-term memory: searching by tags\<close>

lemma bucket_index_add:
  "bucket (index_add key mid idx) k = (if k = key then insert mid (bucket idx k) else bucket idx k)"
  by (auto simp: index_add_def bucket_def update_conv' split: option.splits)



lemma LongTermMemory_store_type_bucket:
  "bucket (type_index (LongTermMemory_store write_ok r h l)) t =
     (if t = memory_type (objs h r) then insert (memory_id (objs h r)) (bucket (type_index l) t)
      else bucket (type_index l) t)"
  by (simp add: LongTermMemory_store_def Let_def bucket_index_add)








lemma bucket_empty [simp]: "bucket [] k = {}"
  by (simp add: bucket_def)




section \<open>Consolidation\<close>















section \<open>Long-term memory: the type filter and the secondary indices\<close>

text \<open>
  C2. The long-term memory of the example holds the single item ``A'', of type
  ``semantic''. A search for the type ``episodic'', under which nothing is indexed,
  does not filter at all and returns that item, whereas a search for the tag ``z'',
  under which nothing is indexed either, returns nothing.
\<close>

theorem type_filter_unindexed:
  "memory_type (objs (fst (snd stored_lt)) 0) = ''semantic''
   \<and> index (long_term (snd (snd stored_lt))) = [(''A'', 0)]
   \<and> map_of (type_index (long_term (snd (snd stored_lt)))) ''episodic'' = None
   \<and> LongTermMemory_search (\<lambda>c. c) None None (Some ''episodic'') 0 10
        (fst (snd stored_lt)) (long_term (snd (snd stored_lt))) = Inr [0]
   \<and> map_of (tag_index (long_term (snd (snd stored_lt)))) ''z'' = None
   \<and> LongTermMemory_search (\<lambda>c. c) None (Some [''z'']) None 0 10
        (fst (snd stored_lt)) (long_term (snd (snd stored_lt))) = Inr []"
  by (simp add: LongTermMemory_search_def search_candidates_def search_items_def by_importance_def
      slice_to_def List.map_filter_def stored_lt_eval new_item_def Let_def)

lemma stored_m2_eval:
  "index (long_term (snd (snd stored_m2))) = [(''m'', 1)]"
  "tag_index (long_term (snd (snd stored_m2))) = [(''a'', {''m''}), (''b'', {''m''})]"
  "type_index (long_term (snd (snd stored_m2))) = [(''episodic'', {''m''})]"
  "tags (objs (fst (snd stored_m2)) 1) = [''b'']"
  "memory_type (objs (fst (snd stored_m2)) 1) = ''episodic''"
  "created_at (objs (fst (snd stored_m2)) 1) = 0"
  "importance (objs (fst (snd stored_m2)) 1) = 9 / 10"
  "files (long_term (snd (snd stored_m2))) = [(''m'', Some (objs (fst (snd stored_m2)) 1))]"
  by (simp_all add: stored_m2_def stored_m1_def LayeredMemorySystem_store_def
      ShortTermMemory_store_def LongTermMemory_store_def save_memory_def index_add_def always_ok_def
      alloc_def content_id_def clock_at_def
      empty_heap_def fresh_system_def cleanup_expired_def deque_append_def minute_us_def Let_def)

text \<open>
  C8. After the two stores of the example the id ``m'' resolves to the second object,
  tagged ``b'', and is listed under both tags. A prune 400 days later removes the item
  and returns the count 1: the primary index is empty, but the bucket of the tag ``a''
  still holds the id.
\<close>

theorem stale_bucket_after_prune:
  "index (long_term (snd (snd stored_m2))) = [(''m'', 1)]
   \<and> tag_index (long_term (snd (snd stored_m2))) = [(''a'', {''m''}), (''b'', {''m''})]
   \<and> prune (round_double 0.1) 365 (400 * day_us) (fst (snd stored_m2)) (long_term (snd (snd stored_m2)))
       = Inr (1, \<lparr>index = [], tag_index = [(''a'', {''m''}), (''b'', {})],
                   type_index = [(''episodic'', {})], files = []\<rparr>)"
proof -
  have "fold (prune_remove (fst (snd stored_m2))) [''m''] (long_term (snd (snd stored_m2)))
          = \<lparr>index = [], tag_index = [(''a'', {''m''}), (''b'', {})],
             type_index = [(''episodic'', {})], files = []\<rparr>"
    by (rule LongTermMemory.equality)
       (simp_all add: prune_remove_def index_discard_def stored_m2_eval
          stored_m2_eval[unfolded One_nat_def] Let_def)
  then show ?thesis
    by (simp add: prune_def prune_due_def stored_m2_eval stored_m2_eval[unfolded One_nat_def]
          day_us_def Let_def)
qed

end
